theory Spec2Isabelle
  imports Main
begin

section \<open>JavaScript values\<close>

text \<open>
  The values the transport and the envelope codec handle. Numbers are the integers (a
  JavaScript number that is a safe integer; fractions, exponents, NaN and the infinities
  are outside the model); strings are lists of 8-bit characters; an object is the list
  of its own enumerable properties in enumeration order, with distinct keys.
  \<open>JStream s\<close> is a readable byte stream that still holds the bytes \<open>s\<close>: an object
  with no own enumerable property.
\<close>

datatype jsval =
    JUndefined
  | JNull
  | JBool bool
  | JNum int
  | JStr string
  | JArr "jsval list"
  | JObj "(string \<times> jsval) list"
  | JStream string

text \<open>What the code throws: \<open>new Error(message)\<close>, a \<open>TypeError\<close> (a property read
  from \<open>undefined\<close> or \<open>null\<close>, a rejected \<open>fetch\<close>), a \<open>SyntaxError\<close> (text that
  is not JSON), and the data accessor's error for a stream already consumed.\<close>

datatype error =
    Error string
  | TypeError
  | SyntaxError
  | StreamExhaustedError

definition err_bind :: "error + 'a \<Rightarrow> ('a \<Rightarrow> error + 'b) \<Rightarrow> error + 'b" where
  "err_bind m f = (case m of Inl e \<Rightarrow> Inl e | Inr x \<Rightarrow> f x)"

subsection \<open>Decimal numerals\<close>

definition char_code :: "char \<Rightarrow> nat" where
  "char_code c = of_char c"

definition is_digit :: "char \<Rightarrow> bool" where
  "is_digit c = (48 \<le> char_code c \<and> char_code c \<le> 57)"

definition digit_char :: "nat \<Rightarrow> char" where
  "digit_char d = char_of (48 + d)"

text \<open>\<open>String(n)\<close> for a natural number and for an integer.\<close>

fun show_nat :: "nat \<Rightarrow> string" where
  "show_nat n = (if n < 10 then [digit_char n] else show_nat (n div 10) @ [digit_char (n mod 10)])"

declare show_nat.simps [simp del]

definition show_int :: "int \<Rightarrow> string" where
  "show_int i = (if i < 0 then CHR ''-'' # show_nat (nat (- i)) else show_nat (nat i))"

subsection \<open>Objects\<close>

text \<open>Assignment \<open>o[k] = v\<close> on the property list: an existing key keeps its place, a
  new key goes last.\<close>

fun obj_set :: "string \<Rightarrow> jsval \<Rightarrow> (string \<times> jsval) list \<Rightarrow> (string \<times> jsval) list" where
  "obj_set k v [] = [(k, v)]"
| "obj_set k v (p # ps) = (if fst p = k then (k, v) # ps else p # obj_set k v ps)"

text \<open>The property read \<open>v.k\<close>, for the property names this program reads: it throws
  on \<open>undefined\<close> and \<open>null\<close>, finds an own property of an object, and is
  \<open>undefined\<close> otherwise. Properties inherited from a prototype are outside the model;
  of the names read here only \<open>entries\<close> of an array is one (a function).\<close>

fun js_get :: "jsval \<Rightarrow> string \<Rightarrow> error + jsval" where
  "js_get JUndefined k = Inl TypeError"
| "js_get JNull k = Inl TypeError"
| "js_get (JObj ps) k = (case map_of ps k of None \<Rightarrow> Inr JUndefined | Some v \<Rightarrow> Inr v)"
| "js_get v k = Inr JUndefined"

text \<open>The properties that the spread \<open>{ ...v }\<close> copies: the own enumerable properties
  of an object, the indexed elements of an array, the indexed characters of a string,
  and nothing for \<open>undefined\<close>, \<open>null\<close>, a boolean, a number or a stream.\<close>

fun own_props :: "jsval \<Rightarrow> (string \<times> jsval) list" where
  "own_props (JObj ps) = ps"
| "own_props (JArr xs) = zip (map show_nat [0..<length xs]) xs"
| "own_props (JStr s) = zip (map show_nat [0..<length s]) (map (\<lambda>c. JStr [c]) s)"
| "own_props v = []"

section \<open>JSON text\<close>

subsection \<open>\<open>JSON.stringify\<close>\<close>

definition hex_char :: "nat \<Rightarrow> char" where
  "hex_char d = (if d < 10 then char_of (48 + d) else char_of (87 + d))"

text \<open>A character inside a string literal: the quote and the backslash are escaped, a
  control character is written by its short escape or as \<open>\u00XX\<close>.\<close>

definition escape_char :: "char \<Rightarrow> string" where
  "escape_char c =
     (let n = char_code c in
      if n = 34 then [CHR 0x5C, CHR 0x22]
      else if n = 92 then [CHR 0x5C, CHR 0x5C]
      else if n = 8 then [CHR 0x5C, CHR ''b'']
      else if n = 12 then [CHR 0x5C, CHR ''f'']
      else if n = 10 then [CHR 0x5C, CHR ''n'']
      else if n = 13 then [CHR 0x5C, CHR ''r'']
      else if n = 9 then [CHR 0x5C, CHR ''t'']
      else if n < 32 then [CHR 0x5C, CHR ''u'', CHR ''0'', CHR ''0'', hex_char (n div 16), hex_char (n mod 16)]
      else [c])"

definition quote :: "string \<Rightarrow> string" where
  "quote s = CHR 0x22 # concat (map escape_char s) @ [CHR 0x22]"

text \<open>The text of a value. An \<open>undefined\<close> array element is written \<open>null\<close>, a property
  whose value is \<open>undefined\<close> is left out, a stream is an object without properties.\<close>

fun stringify :: "jsval \<Rightarrow> string"
  and stringify_elems :: "jsval list \<Rightarrow> string"
  and stringify_members :: "(string \<times> jsval) list \<Rightarrow> string" where
  "stringify JUndefined = ''null''"
| "stringify JNull = ''null''"
| "stringify (JBool b) = (if b then ''true'' else ''false'')"
| "stringify (JNum i) = show_int i"
| "stringify (JStr s) = quote s"
| "stringify (JArr xs) = CHR ''['' # stringify_elems xs @ '']''"
| "stringify (JObj ps) = CHR ''{'' # stringify_members ps @ ''}''"
| "stringify (JStream s) = ''{}''"
| "stringify_elems [] = []"
| "stringify_elems (x # xs) =
     stringify x @ (if xs = [] then [] else CHR '','' # stringify_elems xs)"
| "stringify_members [] = []"
| "stringify_members ((k, v) # ps) =
     (if v = JUndefined then stringify_members ps
      else quote k @ CHR '':'' # stringify v @
           (if stringify_members ps = [] then [] else CHR '','' # stringify_members ps))"

text \<open>\<open>JSON.stringify(v)\<close>: \<open>None\<close> is the result \<open>undefined\<close>.\<close>

definition JSON_stringify :: "jsval \<Rightarrow> string option" where
  "JSON_stringify v = (if v = JUndefined then None else Some (stringify v))"

subsection \<open>\<open>JSON.parse\<close>\<close>

definition is_ws :: "char \<Rightarrow> bool" where
  "is_ws c = (char_code c = 32 \<or> char_code c = 9 \<or> char_code c = 10 \<or> char_code c = 13)"

definition skip_ws :: "string \<Rightarrow> string" where
  "skip_ws s = dropWhile is_ws s"

definition hex_val :: "char \<Rightarrow> nat option" where
  "hex_val c =
     (let n = char_code c in
      if 48 \<le> n \<and> n \<le> 57 then Some (n - 48)
      else if 97 \<le> n \<and> n \<le> 102 then Some (n - 87)
      else if 65 \<le> n \<and> n \<le> 70 then Some (n - 55)
      else None)"

definition hex4 :: "char \<Rightarrow> char \<Rightarrow> char \<Rightarrow> char \<Rightarrow> nat option" where
  "hex4 a b c d =
     (case (hex_val a, hex_val b, hex_val c, hex_val d) of
        (Some w, Some x, Some y, Some z) \<Rightarrow> Some (4096 * w + 256 * x + 16 * y + z)
      | _ \<Rightarrow> None)"

definition unescape :: "char \<Rightarrow> char option" where
  "unescape e =
     (let n = char_code e in
      if n = 34 \<or> n = 92 \<or> n = 47 then Some e
      else if e = CHR ''b'' then Some (char_of (8::nat))
      else if e = CHR ''f'' then Some (char_of (12::nat))
      else if e = CHR ''n'' then Some (char_of (10::nat))
      else if e = CHR ''r'' then Some (char_of (13::nat))
      else if e = CHR ''t'' then Some (char_of (9::nat))
      else None)"

text \<open>The characters of a string literal after its opening quote, up to the closing
  quote, and the text that follows. An escape \<open>\uXXXX\<close> above \<open>00FF\<close> is outside
  the 8-bit characters of the model and is refused.\<close>

definition cons_fst :: "'a \<Rightarrow> ('a list \<times> 'b) option \<Rightarrow> ('a list \<times> 'b) option" where
  "cons_fst x r = map_option (\<lambda>(xs, t). (x # xs, t)) r"

fun parse_chars :: "string \<Rightarrow> (string \<times> string) option" where
  "parse_chars [] = None"
| "parse_chars (c # cs) =
     (if char_code c = 34 then Some ([], cs)
      else if char_code c = 92 then
        (case cs of
           [] \<Rightarrow> None
         | e # r \<Rightarrow>
             if e = CHR ''u'' then
               (case r of
                  h1 # h2 # h3 # h4 # r' \<Rightarrow>
                    (case hex4 h1 h2 h3 h4 of
                       None \<Rightarrow> None
                     | Some n \<Rightarrow> if n < 256 then cons_fst (char_of n) (parse_chars r') else None)
                | _ \<Rightarrow> None)
             else
               (case unescape e of
                  None \<Rightarrow> None
                | Some d \<Rightarrow> cons_fst d (parse_chars r)))
      else if char_code c < 32 then None
      else cons_fst c (parse_chars cs))"

text \<open>A number: an optional minus sign and decimal digits without a leading zero. A
  fraction or an exponent is outside the integers of the model and is refused.\<close>

definition digit_val :: "char \<Rightarrow> nat" where
  "digit_val c = char_code c - 48"

definition digits_val :: "string \<Rightarrow> nat" where
  "digits_val ds = foldl (\<lambda>a c. 10 * a + digit_val c) 0 ds"

definition parse_nat :: "string \<Rightarrow> (nat \<times> string) option" where
  "parse_nat s =
     (let ds = takeWhile is_digit s; r = dropWhile is_digit s in
      if ds = [] then None
      else if hd ds = CHR ''0'' \<and> tl ds \<noteq> [] then None
      else if r \<noteq> [] \<and> hd r \<in> {CHR ''.'', CHR ''e'', CHR ''E''} then None
      else Some (digits_val ds, r))"

definition parse_number :: "string \<Rightarrow> (jsval \<times> string) option" where
  "parse_number s =
     (case s of
        [] \<Rightarrow> None
      | c # cs \<Rightarrow>
          if c = CHR ''-'' then map_option (\<lambda>(n, r). (JNum (- int n), r)) (parse_nat cs)
          else map_option (\<lambda>(n, r). (JNum (int n), r)) (parse_nat s))"

definition parse_literal :: "string \<Rightarrow> (jsval \<times> string) option" where
  "parse_literal s =
     (if take 4 s = ''true'' then Some (JBool True, drop 4 s)
      else if take 5 s = ''false'' then Some (JBool False, drop 5 s)
      else if take 4 s = ''null'' then Some (JNull, drop 4 s)
      else None)"

text \<open>The object of a member list: a repeated key keeps its first place and takes its
  last value.\<close>

definition build_obj :: "(string \<times> jsval) list \<Rightarrow> (string \<times> jsval) list" where
  "build_obj kvs = foldl (\<lambda>ps (k, v). obj_set k v ps) [] kvs"

text \<open>Recursive descent; the first argument bounds the depth of the calls.\<close>

fun parse_value :: "nat \<Rightarrow> string \<Rightarrow> (jsval \<times> string) option"
  and parse_elems :: "nat \<Rightarrow> string \<Rightarrow> (jsval list \<times> string) option"
  and parse_members :: "nat \<Rightarrow> string \<Rightarrow> ((string \<times> jsval) list \<times> string) option" where
  "parse_value 0 s = None"
| "parse_value (Suc n) s =
     (case skip_ws s of
        [] \<Rightarrow> None
      | c # cs \<Rightarrow>
          if c = CHR ''{'' then
            (case skip_ws cs of
               [] \<Rightarrow> None
             | d # ds \<Rightarrow>
                 if d = CHR ''}'' then Some (JObj [], ds)
                 else map_option (\<lambda>(kvs, r). (JObj (build_obj kvs), r)) (parse_members n (d # ds)))
          else if c = CHR ''['' then
            (case skip_ws cs of
               [] \<Rightarrow> None
             | d # ds \<Rightarrow>
                 if d = CHR '']'' then Some (JArr [], ds)
                 else map_option (\<lambda>(vs, r). (JArr vs, r)) (parse_elems n (d # ds)))
          else if char_code c = 34 then map_option (\<lambda>(t, r). (JStr t, r)) (parse_chars cs)
          else if c = CHR ''-'' \<or> is_digit c then parse_number (c # cs)
          else parse_literal (c # cs))"
| "parse_elems 0 s = None"
| "parse_elems (Suc n) s =
     (case parse_value n s of
        None \<Rightarrow> None
      | Some (v, r) \<Rightarrow>
          (case skip_ws r of
             [] \<Rightarrow> None
           | c # cs \<Rightarrow>
               if c = CHR '','' then cons_fst v (parse_elems n cs)
               else if c = CHR '']'' then Some ([v], cs)
               else None))"
| "parse_members 0 s = None"
| "parse_members (Suc n) s =
     (case skip_ws s of
        [] \<Rightarrow> None
      | q # s1 \<Rightarrow>
          if char_code q \<noteq> 34 then None
          else
            (case parse_chars s1 of
               None \<Rightarrow> None
             | Some (k, s2) \<Rightarrow>
                 (case skip_ws s2 of
                    [] \<Rightarrow> None
                  | c # s3 \<Rightarrow>
                      if c \<noteq> CHR '':'' then None
                      else
                        (case parse_value n s3 of
                           None \<Rightarrow> None
                         | Some (v, s4) \<Rightarrow>
                             (case skip_ws s4 of
                                [] \<Rightarrow> None
                              | d # s5 \<Rightarrow>
                                  if d = CHR '','' then cons_fst (k, v) (parse_members n s5)
                                  else if d = CHR ''}'' then Some ([(k, v)], s5)
                                  else None)))))"

text \<open>\<open>JSON.parse(s)\<close>: \<open>None\<close> is a \<open>SyntaxError\<close>. Every call of the
  descent below another has read a character first, so twice the length of the text
  bounds the depth (lemma \<open>JSON_parse_fuel\<close>).\<close>

definition JSON_parse :: "string \<Rightarrow> jsval option" where
  "JSON_parse s =
     (case parse_value (2 * length s + 2) s of
        None \<Rightarrow> None
      | Some (v, r) \<Rightarrow> if skip_ws r = [] then Some v else None)"

section \<open>Envelope codec (json-rpc.js)\<close>

definition createJsonRpcErrorResponse :: "jsval \<Rightarrow> jsval \<Rightarrow> jsval \<Rightarrow> jsval \<Rightarrow> jsval" where
  "createJsonRpcErrorResponse ident code message data =
     (let error = [(''code'', code), (''message'', message)];
          error = (if data \<noteq> JUndefined then obj_set ''data'' data error else error)
      in JObj [(''jsonrpc'', JStr ''2.0''), (''id'', ident), (''error'', JObj error)])"

definition createJsonRpcNotification :: "jsval \<Rightarrow> jsval \<Rightarrow> jsval" where
  "createJsonRpcNotification method params =
     JObj [(''jsonrpc'', JStr ''2.0''), (''method'', method), (''params'', params)]"

definition createJsonRpcRequest :: "jsval \<Rightarrow> jsval \<Rightarrow> jsval \<Rightarrow> jsval" where
  "createJsonRpcRequest ident method params =
     JObj [(''jsonrpc'', JStr ''2.0''), (''id'', ident), (''method'', method), (''params'', params)]"

definition createJsonRpcSuccessResponse :: "jsval \<Rightarrow> jsval \<Rightarrow> jsval" where
  "createJsonRpcSuccessResponse ident result =
     JObj [(''jsonrpc'', JStr ''2.0''), (''id'', ident),
           (''result'', if result = JUndefined \<or> result = JNull then JNull else result)]"

section \<open>HTTP transport (http-transport.js)\<close>

subsection \<open>The fetch interface\<close>

text \<open>The request of a transport: \<open>request.message\<close>, \<open>request.author\<close>,
  \<open>request.target\<close> and \<open>request.data\<close>.\<close>

record logical_request =
  req_message :: jsval
  req_author :: jsval
  req_target :: jsval
  req_data :: jsval

text \<open>The second argument of \<open>fetch\<close>.\<close>

record fetch_init =
  init_method :: string
  init_mode :: string
  init_cache :: string
  init_headers :: "(string \<times> string) list"
  init_body :: jsval

text \<open>A response: its status, its header lines (name and value, the value without
  surrounding white space), and the bytes of its body (\<open>None\<close> when it has no body).\<close>

record response =
  resp_status :: nat
  resp_headers :: "(string \<times> string) list"
  resp_body :: "string option"

text \<open>\<open>response.ok\<close>: the status is in the range 200 to 299.\<close>

definition response_ok :: "response \<Rightarrow> bool" where
  "response_ok r = (200 \<le> resp_status r \<and> resp_status r \<le> 299)"

text \<open>\<open>response.body\<close>: the stream of the body, \<open>null\<close> when there is none.\<close>

definition response_body :: "response \<Rightarrow> jsval" where
  "response_body r = (case resp_body r of None \<Rightarrow> JNull | Some s \<Rightarrow> JStream s)"

text \<open>\<open>response.json()\<close>: the whole body read as JSON text.\<close>

definition response_json :: "response \<Rightarrow> error + jsval" where
  "response_json r =
     (case JSON_parse (case resp_body r of None \<Rightarrow> [] | Some s \<Rightarrow> s) of
        None \<Rightarrow> Inl SyntaxError
      | Some v \<Rightarrow> Inr v)"

text \<open>\<open>headers.get(name)\<close>: header names compare without regard to case, the values of
  a repeated header are joined by a comma and a space, and a header that is absent gives
  \<open>null\<close> (\<open>None\<close>).\<close>

definition to_lower :: "char \<Rightarrow> char" where
  "to_lower c = (if 65 \<le> char_code c \<and> char_code c \<le> 90 then char_of (char_code c + 32) else c)"

fun join_values :: "string list \<Rightarrow> string" where
  "join_values [] = []"
| "join_values [v] = v"
| "join_values (v # vs) = v @ '', '' @ join_values vs"

definition headers_get :: "(string \<times> string) list \<Rightarrow> string \<Rightarrow> string option" where
  "headers_get hs name =
     (let vs = map snd (filter (\<lambda>h. map to_lower (fst h) = map to_lower name) hs)
      in if vs = [] then None else Some (join_values vs))"

text \<open>The test \<open>if (header)\<close> on the result of \<open>headers.get\<close>: \<open>null\<close> and the empty
  string are falsy; the result is the header's text when the test succeeds.\<close>

definition truthy :: "string option \<Rightarrow> string option" where
  "truthy x = (case x of None \<Rightarrow> None | Some h \<Rightarrow> if h = [] then None else Some h)"

text \<open>The network: the answers it will give to the coming calls of \<open>fetch\<close>, in order
  (an error is a rejected call), and the calls made so far. A call takes the next
  answer; with none left the call is rejected.\<close>

record world =
  pending :: "(error + response) list"
  fetched :: "(string \<times> fetch_init) list"

definition fetch :: "world \<Rightarrow> string \<Rightarrow> fetch_init \<Rightarrow> (error + response) \<times> world" where
  "fetch w endpoint init =
     (case pending w of
        [] \<Rightarrow> (Inl TypeError, w\<lparr>fetched := fetched w @ [(endpoint, init)]\<rparr>)
      | r # rs \<Rightarrow> (r, w\<lparr>pending := rs, fetched := fetched w @ [(endpoint, init)]\<rparr>))"

subsection \<open>HttpTransport\<close>

definition DWN_MESSAGE_HEADER :: string where
  "DWN_MESSAGE_HEADER = ''dwn-request''"

definition DWN_RESPONSE_HEADER :: string where
  "DWN_RESPONSE_HEADER = ''dwn-response''"

definition WEB5_RESPONSE_HEADER :: string where
  "WEB5_RESPONSE_HEADER = ''WEB5-RESPONSE''"

definition encodeMessage :: "jsval \<Rightarrow> string option" where
  "encodeMessage message = JSON_stringify message"

text \<open>Modelled from the spec: \<open>parseJson\<close> of \<open>utils.js\<close>, which is not among the
  sources. The spec has \<open>decodeMessage\<close> as pure deserialization that fails only on
  malformed input, a decode failure surfaced to the caller.\<close>

definition parseJson :: "string \<Rightarrow> error + jsval" where
  "parseJson s = (case JSON_parse s of None \<Rightarrow> Inl SyntaxError | Some v \<Rightarrow> Inr v)"

definition decodeMessage :: "string \<Rightarrow> error + jsval" where
  "decodeMessage message = parseJson message"

text \<open>A header value made from the result of \<open>encodeMessage\<close>: \<open>undefined\<close> becomes
  the text \<open>undefined\<close>.\<close>

definition header_value :: "string option \<Rightarrow> string" where
  "header_value x = (case x of None \<Rightarrow> ''undefined'' | Some s \<Rightarrow> s)"

text \<open>The two statements that both header branches of \<open>send\<close> end with:
  \<^verbatim>\<open>const { entries = null, message, record, status } = decoded;\<close>
  \<^verbatim>\<open>return { entries, message, record: { ...record, data: response.body }, status };\<close>\<close>

definition header_reply :: "jsval \<Rightarrow> jsval \<Rightarrow> error + jsval" where
  "header_reply decoded body =
     err_bind (js_get decoded ''entries'') (\<lambda>entries.
     err_bind (js_get decoded ''message'') (\<lambda>message.
     err_bind (js_get decoded ''record'') (\<lambda>record.
     err_bind (js_get decoded ''status'') (\<lambda>status.
       Inr (JObj [(''entries'', if entries = JUndefined then JNull else entries),
                  (''message'', message),
                  (''record'', JObj (obj_set ''data'' body (own_props record))),
                  (''status'', status)])))))"

text \<open>\<open>send(endpoint, request)\<close>. \<open>Encoder.base64UrlToObject\<close> belongs to the
  \<open>dwn-sdk-js\<close> library and is a parameter, \<open>requestId\<close> is what \<open>uuidv4()\<close>
  returned, and \<open>w\<close> is the network before the call; the result is what the promise
  settles with, and the network after the call.\<close>

definition send ::
  "(string \<Rightarrow> error + jsval) \<Rightarrow> string \<Rightarrow> world \<Rightarrow> string \<Rightarrow> logical_request
     \<Rightarrow> (error + jsval) \<times> world" where
  "send Encoder_base64UrlToObject requestId w endpoint request =
     (let dwnRequest = createJsonRpcRequest (JStr requestId) (JStr ''dwn.processMessage'')
            (JObj (obj_set ''target'' (req_target request)
                    (obj_set ''author'' (req_author request)
                      (own_props (req_message request)))));
          (answer, w') = fetch w endpoint
            \<lparr>init_method = ''POST'', init_mode = ''cors'', init_cache = ''no-cache'',
             init_headers = [(DWN_MESSAGE_HEADER, header_value (encodeMessage dwnRequest))],
             init_body = req_data request\<rparr>
      in case answer of
           Inl e \<Rightarrow> (Inl e, w')
         | Inr response \<Rightarrow>
             if \<not> response_ok response then
               (Inl (Error (''Fetch failed with status '' @ show_nat (resp_status response))), w')
             else
               let dwnResponseHeader = headers_get (resp_headers response) DWN_RESPONSE_HEADER;
                   web5ResponseHeader = headers_get (resp_headers response) WEB5_RESPONSE_HEADER
               in case truthy web5ResponseHeader of
                    Some h \<Rightarrow>
                      (err_bind (Encoder_base64UrlToObject h) (\<lambda>decoded.
                         header_reply decoded (response_body response)), w')
                  | None \<Rightarrow>
                      (case truthy dwnResponseHeader of
                         Some h \<Rightarrow>
                           (err_bind (decodeMessage h) (\<lambda>responseJson.
                            err_bind (js_get responseJson ''result'') (\<lambda>result.
                            err_bind (js_get result ''reply'') (\<lambda>reply.
                              header_reply reply (response_body response)))), w')
                       | None \<Rightarrow>
                           (err_bind (response_json response) (\<lambda>responseJson.
                            err_bind (js_get responseJson ''result'') (\<lambda>result.
                              js_get result ''reply'')), w')))"

subsection \<open>The library's decoder\<close>

text \<open>\<open>Encoder.base64UrlToObject\<close> of \<open>dwn-sdk-js\<close>, to run \<open>send\<close> with: the text
  is base64url without padding (RFC 4648, section 5) of the bytes of a JSON text.\<close>

definition base64url_val :: "char \<Rightarrow> nat option" where
  "base64url_val c =
     (let n = char_code c in
      if 65 \<le> n \<and> n \<le> 90 then Some (n - 65)
      else if 97 \<le> n \<and> n \<le> 122 then Some (n - 71)
      else if 48 \<le> n \<and> n \<le> 57 then Some (n + 4)
      else if n = 45 then Some 62
      else if n = 95 then Some 63
      else None)"

fun base64url_bytes :: "nat list \<Rightarrow> string option" where
  "base64url_bytes (a # b # c # d # r) =
     map_option (\<lambda>t. char_of (4 * a + b div 16) # char_of (16 * (b mod 16) + c div 4)
                      # char_of (64 * (c mod 4) + d) # t) (base64url_bytes r)"
| "base64url_bytes [a, b, c] =
     Some [char_of (4 * a + b div 16), char_of (16 * (b mod 16) + c div 4)]"
| "base64url_bytes [a, b] = Some [char_of (4 * a + b div 16)]"
| "base64url_bytes [a] = None"
| "base64url_bytes [] = Some []"

definition base64UrlToObject :: "string \<Rightarrow> error + jsval" where
  "base64UrlToObject s =
     (case those (map base64url_val s) of
        None \<Rightarrow> Inl SyntaxError
      | Some vs \<Rightarrow>
          (case base64url_bytes vs of
             None \<Rightarrow> Inl SyntaxError
           | Some t \<Rightarrow> (case JSON_parse t of None \<Rightarrow> Inl SyntaxError | Some v \<Rightarrow> Inr v)))"

section \<open>Record data accessor\<close>

text \<open>
  Modelled from the spec: the data accessor of \<open>Record\<close> (\<open>src/dwn/models/record.js\<close>),
  which is not among the sources; \<open>record.spec.js\<close> only calls it. The spec gives a
  Record one of three data sources: encoded bytes, a stream that can be consumed at most
  once, or neither, in which case a deferred fetch against the owning node returns bytes
  or a stream. Reading from bytes is repeatable and the decoded value is memoized; the
  first read of a stream consumes it whole and every later read fails with
  \<open>StreamExhaustedError\<close>. The spec's state Materializing lasts only while a read is in
  flight, so an accessor between two calls is Unread, Cached or Exhausted. The three
  counters tell how many deferred fetches, decodings and stream consumptions were made.
\<close>

datatype payload = Bytes string | Stream string

datatype data_source = EncodedBytes string | DataStream string | Absent payload

datatype accessor_state = Unread | Cached jsval | Exhausted

record data_accessor =
  acc_source :: data_source
  acc_state :: accessor_state
  acc_fetches :: nat
  acc_decodes :: nat
  acc_reads :: nat

definition new_accessor :: "data_source \<Rightarrow> data_accessor" where
  "new_accessor src =
     \<lparr>acc_source = src, acc_state = Unread, acc_fetches = 0, acc_decodes = 0, acc_reads = 0\<rparr>"

text \<open>Modelled from the spec: an absent source is resolved by the deferred fetch, once;
  the accessor then holds the buffer or the stream that the fetch returned.\<close>

definition resolve :: "data_accessor \<Rightarrow> data_accessor" where
  "resolve a =
     (case acc_source a of
        Absent p \<Rightarrow>
          a\<lparr>acc_source := (case p of Bytes b \<Rightarrow> EncodedBytes b | Stream t \<Rightarrow> DataStream t),
            acc_fetches := acc_fetches a + 1\<rparr>
      | _ \<Rightarrow> a)"

text \<open>What a source gives to read: a buffer or a stream.\<close>

fun held :: "data_source \<Rightarrow> payload" where
  "held (EncodedBytes b) = Bytes b"
| "held (DataStream t) = Stream t"
| "held (Absent p) = p"

text \<open>Modelled from the spec: read as parsed JSON (\<open>record.data.json()\<close>).\<close>

definition data_json :: "data_accessor \<Rightarrow> (error + jsval) \<times> data_accessor" where
  "data_json a0 =
     (let a = resolve a0 in
      case held (acc_source a) of
        Bytes b \<Rightarrow>
          (case acc_state a of
             Cached v \<Rightarrow> (Inr v, a)
           | _ \<Rightarrow>
               (case JSON_parse b of
                  None \<Rightarrow> (Inl SyntaxError, a\<lparr>acc_decodes := acc_decodes a + 1\<rparr>)
                | Some v \<Rightarrow> (Inr v, a\<lparr>acc_state := Cached v, acc_decodes := acc_decodes a + 1\<rparr>)))
      | Stream t \<Rightarrow>
          (case acc_state a of
             Unread \<Rightarrow>
               (case JSON_parse t of
                  None \<Rightarrow>
                    (Inl SyntaxError,
                     a\<lparr>acc_source := DataStream [], acc_state := Exhausted,
                       acc_decodes := acc_decodes a + 1, acc_reads := acc_reads a + 1\<rparr>)
                | Some v \<Rightarrow>
                    (Inr v,
                     a\<lparr>acc_source := DataStream [], acc_state := Cached v,
                       acc_decodes := acc_decodes a + 1, acc_reads := acc_reads a + 1\<rparr>))
           | _ \<Rightarrow> (Inl StreamExhaustedError, a)))"

text \<open>Modelled from the spec: read as raw bytes.\<close>

definition data_bytes :: "data_accessor \<Rightarrow> (error + string) \<times> data_accessor" where
  "data_bytes a0 =
     (let a = resolve a0 in
      case held (acc_source a) of
        Bytes b \<Rightarrow> (Inr b, a)
      | Stream t \<Rightarrow>
          (case acc_state a of
             Unread \<Rightarrow>
               (Inr t, a\<lparr>acc_source := DataStream [], acc_state := Exhausted,
                         acc_reads := acc_reads a + 1\<rparr>)
           | _ \<Rightarrow> (Inl StreamExhaustedError, a)))"

text \<open>The operations of an accessor, and a sequence of them run one after the other;
  bytes that were read are reported as a string value.\<close>

datatype read_op = ReadJson | ReadBytes

fun run_op :: "read_op \<Rightarrow> data_accessor \<Rightarrow> (error + jsval) \<times> data_accessor" where
  "run_op ReadJson a = data_json a"
| "run_op ReadBytes a =
     (case data_bytes a of (Inl e, a') \<Rightarrow> (Inl e, a') | (Inr b, a') \<Rightarrow> (Inr (JStr b), a'))"

fun run_ops :: "read_op list \<Rightarrow> data_accessor \<Rightarrow> (error + jsval) list \<times> data_accessor" where
  "run_ops [] a = ([], a)"
| "run_ops (x # xs) a =
     (case run_op x a of (r, a') \<Rightarrow> (case run_ops xs a' of (rs, a'') \<Rightarrow> (r # rs, a'')))"

section \<open>Notions used in the statements and proofs\<close>


text \<open>Text that may come after a value: nothing, or a comma or a closing bracket.\<close>

definition follows :: "string \<Rightarrow> bool" where
  "follows r = (r = [] \<or> hd r \<in> {CHR '','', CHR '']'', CHR ''}''})"


text \<open>A character that can begin the text of a value.\<close>

definition opener :: "char \<Rightarrow> bool" where
  "opener c \<longleftrightarrow> \<not> is_ws c \<and> c \<noteq> CHR '']'' \<and> c \<noteq> CHR ''}''"

text \<open>With \<open>n\<close> as bound, a successful parse leaves less text than it was given.\<close>

definition shrinks :: "nat \<Rightarrow> bool" where
  "shrinks n \<longleftrightarrow>
     (\<forall>s v r. parse_value n s = Some (v, r) \<longrightarrow> length r < length s)
   \<and> (\<forall>s vs r. parse_elems n s = Some (vs, r) \<longrightarrow> length r < length s)
   \<and> (\<forall>s kvs r. parse_members n s = Some (kvs, r) \<longrightarrow> length r < length s)"

text \<open>With \<open>n\<close> as bound, the result on a text is that of every other bound that is
  large enough for the text.\<close>

definition steady :: "nat \<Rightarrow> bool" where
  "steady n \<longleftrightarrow>
     (\<forall>s m. 2 * length s + 1 \<le> n \<longrightarrow> 2 * length s + 1 \<le> m \<longrightarrow>
        parse_value n s = parse_value m s)
   \<and> (\<forall>s m. 2 * length s + 2 \<le> n \<longrightarrow> 2 * length s + 2 \<le> m \<longrightarrow>
        parse_elems n s = parse_elems m s)
   \<and> (\<forall>s m. 2 * length s + 2 \<le> n \<longrightarrow> 2 * length s + 2 \<le> m \<longrightarrow>
        parse_members n s = parse_members m s)"

text \<open>An accessor whose stream has been consumed.\<close>

definition consumed :: "data_accessor \<Rightarrow> bool" where
  "consumed a \<longleftrightarrow> (\<exists>t. acc_source a = DataStream t) \<and> acc_state a \<noteq> Unread"

text \<open>An accessor that reads from the buffer \<open>b\<close>: it holds \<open>b\<close> (or its deferred
  fetch will return \<open>b\<close>), and a value it has cached is the decoding of \<open>b\<close>.\<close>

definition buffered :: "string \<Rightarrow> data_accessor \<Rightarrow> bool" where
  "buffered b a \<longleftrightarrow> held (acc_source a) = Bytes b \<and>
     (case acc_state a of Unread \<Rightarrow> True | Cached v \<Rightarrow> JSON_parse b = Some v | Exhausted \<Rightarrow> False)"


section \<open>Example exchanges\<close>

text \<open>A request, a network that answers the next call of \<open>fetch\<close> with a given response,
  and responses of each shape.\<close>

definition example_request :: logical_request where
  "example_request =
     \<lparr>req_message = JObj [(''author'', JStr ''mallory''), (''recordId'', JStr ''r1'')],
      req_author = JStr ''did:alice'', req_target = JStr ''did:bob'', req_data = JUndefined\<rparr>"

definition network :: "response \<Rightarrow> world" where
  "network r = \<lparr>pending = [Inr r], fetched = []\<rparr>"

definition legacy_response :: response where
  \<open>legacy_response =
     \<lparr>resp_status = 200,
      resp_headers =
        [(''dwn-response'', ''{"result":{"reply":{"status":{"code":404}}}}''),
         (''web5-response'',
          ''eyJyZWNvcmQiOnsicmVjb3JkSWQiOiJyMSIsImRhdGEiOiJ4In0sInN0YXR1cyI6eyJjb2RlIjoyMDB9fQ'')],
      resp_body = Some ''hello''\<rparr>\<close>

definition current_response :: response where
  \<open>current_response =
     \<lparr>resp_status = 200,
      resp_headers =
        [(''dwn-response'',
          ''{"result":{"reply":{"record":{"recordId":"r1","data":"x"},"status":{"code":200}}}}'')],
      resp_body = Some ''hello''\<rparr>\<close>

definition body_response :: response where
  \<open>body_response =
     \<lparr>resp_status = 200,
      resp_headers = [(''content-type'', ''application/json'')],
      resp_body = Some ''{"jsonrpc":"2.0","id":"id-1","result":{"reply":{"entries":[],"status":{"code":200}}}}''\<rparr>\<close>

definition empty_legacy_response :: response where
  \<open>empty_legacy_response =
     \<lparr>resp_status = 200,
      resp_headers = [(''WEB5-RESPONSE'', ''''), (''content-type'', ''application/json'')],
      resp_body = Some ''{"result":{"reply":{"status":{"code":200}}}}''\<rparr>\<close>

definition failed_response :: response where
  \<open>failed_response =
     \<lparr>resp_status = 500,
      resp_headers = [(''dwn-response'', ''{"result":{"reply":{"status":{"code":200}}}}'')],
      resp_body = Some ''Internal Server Error''\<rparr>\<close>

definition bare_legacy_response :: response where
  "bare_legacy_response =
     \<lparr>resp_status = 200,
      resp_headers = [(''WEB5-RESPONSE'', ''eyJzdGF0dXMiOnsiY29kZSI6MjAwfX0'')],
      resp_body = Some ''hello''\<rparr>"

definition bare_current_response :: response where
  \<open>bare_current_response =
     \<lparr>resp_status = 200,
      resp_headers = [(''dwn-response'', ''{"result":{"reply":{"status":{"code":202}}}}'')],
      resp_body = Some ''hello''\<rparr>\<close>

definition empty_current_response :: response where
  \<open>empty_current_response =
     \<lparr>resp_status = 200,
      resp_headers = [(''dwn-response'', '''')],
      resp_body = Some ''{"result":{"reply":{"status":{"code":202,"detail":"Accepted"}}}}''\<rparr>\<close>

section \<open>Decimal numerals read back\<close>













section \<open>String literals read back\<close>










section \<open>Values read back\<close>


lemma not_ws_simps [simp]:
  "\<not> is_ws (CHR '','')" "\<not> is_ws (CHR '']'')" "\<not> is_ws (CHR ''}'')" "\<not> is_ws (CHR '':'')"
  "\<not> is_ws (CHR ''['')" "\<not> is_ws (CHR ''{'')" "\<not> is_ws (CHR 0x22)" "\<not> is_ws (CHR ''-'')"
  "\<not> is_ws (CHR ''n'')" "\<not> is_ws (CHR ''t'')" "\<not> is_ws (CHR ''f'')"
  by (simp_all add: is_ws_def char_code_def)


lemma opener_simps [simp]:
  "opener (CHR ''['')" "opener (CHR ''{'')" "opener (CHR 0x22)" "opener (CHR ''-'')"
  "opener (CHR ''n'')" "opener (CHR ''t'')" "opener (CHR ''f'')"
  by (simp_all add: opener_def)






lemma follows_simps [simp]:
  "follows []" "follows (CHR '','' # r)" "follows (CHR '']'' # r)" "follows (CHR ''}'' # r)"
  by (simp_all add: follows_def)

lemma cons_fst_Some [simp]: "cons_fst x (Some (xs, t)) = Some (x # xs, t)"
  by (simp add: cons_fst_def)


















section \<open>The bound of the parser\<close>

text \<open>A parse consumes text, so the depth of the descent stays below twice the length of
  the text, and the bound that \<open>JSON_parse\<close> gives the descent never cuts a parse short:
  any larger bound gives the same result.\<close>

lemma length_skip_ws: "length (skip_ws s) \<le> length s"
  by (simp add: skip_ws_def length_dropWhile_le)

lemma skip_ws_ConsD: "skip_ws s = c # cs \<Longrightarrow> length cs < length s"
  using length_skip_ws [of s] by simp

lemma cons_fst_SomeD: "cons_fst x m = Some (ys, r) \<Longrightarrow> \<exists>xs. m = Some (xs, r)"
  by (cases m) (auto simp: cons_fst_def)

lemma parse_chars_length: "parse_chars s = Some (t, r) \<Longrightarrow> length r < length s"
proof (induction s arbitrary: t r rule: length_induct)
  case (1 s)
  then have IH: "\<And>u t r. length u < length s \<Longrightarrow> parse_chars u = Some (t, r) \<Longrightarrow> length r < length u"
    by blast
  from "1.prems" obtain c cs where s: "s = c # cs" by (cases s) auto
  show ?case
  proof (cases "char_code c = 34")
    case True
    with "1.prems" s show ?thesis by simp
  next
    case q: False
    show ?thesis
    proof (cases "char_code c = 92")
      case False
      with q "1.prems" s obtain xs where "parse_chars cs = Some (xs, r)"
        by (auto split: if_splits dest: cons_fst_SomeD)
      from IH [OF _ this] s show ?thesis by simp
    next
      case True
      with q "1.prems" s obtain e u where cs: "cs = e # u" by (cases cs) auto
      show ?thesis
      proof (cases "e = CHR ''u''")
        case False
        with True q "1.prems" s cs obtain xs where "parse_chars u = Some (xs, r)"
          by (auto split: option.splits dest: cons_fst_SomeD)
        from IH [OF _ this] s cs show ?thesis by simp
      next
        case u: True
        with True q "1.prems" s cs obtain h1 h2 h3 h4 u' xs
          where "u = h1 # h2 # h3 # h4 # u'" and "parse_chars u' = Some (xs, r)"
          by (auto split: list.splits option.splits if_splits dest: cons_fst_SomeD)
        with IH [of u' xs r] s cs show ?thesis by simp
      qed
    qed
  qed
qed

lemma parse_nat_length: "parse_nat s = Some (n, r) \<Longrightarrow> length r < length s"
proof -
  assume a: "parse_nat s = Some (n, r)"
  have "length s = length (takeWhile is_digit s) + length (dropWhile is_digit s)"
    by (metis length_append takeWhile_dropWhile_id)
  with a show ?thesis
    by (auto simp: parse_nat_def Let_def split: if_splits)
qed

lemma parse_number_length: "parse_number s = Some (v, r) \<Longrightarrow> length r < length s"
  by (cases s) (auto simp: parse_number_def split: if_splits dest!: parse_nat_length)

lemma parse_literal_length: "parse_literal s = Some (v, r) \<Longrightarrow> length r < length s"
  by (cases s) (auto simp: parse_literal_def split: if_splits)

lemma shrinks_value_Suc:
  assumes "shrinks n" and "parse_value (Suc n) s = Some (v, r)"
  shows "length r < length s"
proof -
  from assms(2) obtain c cs where sk: "skip_ws s = c # cs"
    by (cases "skip_ws s") auto
  then have lcs: "length cs < length s" by (rule skip_ws_ConsD)
  have sub: "\<And>d ds. skip_ws cs = d # ds \<Longrightarrow> length (d # ds) < length s"
    using length_skip_ws [of cs] lcs by simp
  consider (obj) "c = CHR ''{''" | (arr) "c \<noteq> CHR ''{''" "c = CHR ''[''"
    | (str) "c \<noteq> CHR ''{''" "c \<noteq> CHR ''[''" "char_code c = 34"
    | (num) "c \<noteq> CHR ''{''" "c \<noteq> CHR ''[''" "char_code c \<noteq> 34" "c = CHR ''-'' \<or> is_digit c"
    | (lit) "c \<noteq> CHR ''{''" "c \<noteq> CHR ''[''" "char_code c \<noteq> 34" "\<not> (c = CHR ''-'' \<or> is_digit c)"
    by blast
  then show ?thesis
  proof cases
    case obj
    with assms(2) sk obtain d ds where d: "skip_ws cs = d # ds"
      by (cases "skip_ws cs") auto
    show ?thesis
    proof (cases "d = CHR ''}''")
      case True
      with assms(2) sk obj d sub [OF d] show ?thesis by simp
    next
      case False
      with assms(2) sk obj d obtain kvs where "parse_members n (d # ds) = Some (kvs, r)"
        by auto
      with assms(1) have "length r < length (d # ds)" unfolding shrinks_def by blast
      with sub [OF d] show ?thesis by simp
    qed
  next
    case arr
    with assms(2) sk obtain d ds where d: "skip_ws cs = d # ds"
      by (cases "skip_ws cs") auto
    show ?thesis
    proof (cases "d = CHR '']''")
      case True
      with assms(2) sk arr d sub [OF d] show ?thesis by simp
    next
      case False
      with assms(2) sk arr d obtain vs where "parse_elems n (d # ds) = Some (vs, r)"
        by auto
      with assms(1) have "length r < length (d # ds)" unfolding shrinks_def by blast
      with sub [OF d] show ?thesis by simp
    qed
  next
    case str
    with assms(2) sk obtain t where "parse_chars cs = Some (t, r)" by auto
    from parse_chars_length [OF this] lcs show ?thesis by simp
  next
    case num
    with assms(2) sk have "parse_number (c # cs) = Some (v, r)" by auto
    from parse_number_length [OF this] lcs show ?thesis by simp
  next
    case lit
    with assms(2) sk have "parse_literal (c # cs) = Some (v, r)" by auto
    from parse_literal_length [OF this] lcs show ?thesis by simp
  qed
qed

lemma shrinks_elems_Suc:
  assumes "shrinks n" and "parse_elems (Suc n) s = Some (vs, r)"
  shows "length r < length s"
proof -
  from assms(2) obtain v r1 where v: "parse_value n s = Some (v, r1)"
    by (cases "parse_value n s") auto
  with assms(1) have l1: "length r1 < length s" unfolding shrinks_def by blast
  from assms(2) v obtain c cs where sk: "skip_ws r1 = c # cs"
    by (cases "skip_ws r1") auto
  then have l2: "length cs < length r1" by (rule skip_ws_ConsD)
  show ?thesis
  proof (cases "c = CHR '',''")
    case True
    with assms(2) v sk obtain ws where "parse_elems n cs = Some (ws, r)"
      by (auto dest: cons_fst_SomeD)
    with assms(1) have "length r < length cs" unfolding shrinks_def by blast
    with l1 l2 show ?thesis by simp
  next
    case False
    with assms(2) v sk have "r = cs" by (auto split: if_splits)
    with l1 l2 show ?thesis by simp
  qed
qed

lemma shrinks_members_Suc:
  assumes "shrinks n" and "parse_members (Suc n) s = Some (kvs, r)"
  shows "length r < length s"
proof -
  from assms(2) obtain q s1 where sk: "skip_ws s = q # s1"
    by (cases "skip_ws s") auto
  then have l1: "length s1 < length s" by (rule skip_ws_ConsD)
  from assms(2) sk have q: "char_code q = 34" by (auto split: if_splits)
  from assms(2) sk q obtain k s2 where k: "parse_chars s1 = Some (k, s2)"
    by (cases "parse_chars s1") auto
  from parse_chars_length [OF k] have l2: "length s2 < length s1" .
  from assms(2) sk q k obtain c s3 where sk2: "skip_ws s2 = c # s3"
    by (cases "skip_ws s2") auto
  then have l3: "length s3 < length s2" by (rule skip_ws_ConsD)
  from assms(2) sk q k sk2 have c: "c = CHR '':''" by (auto split: if_splits)
  from assms(2) sk q k sk2 c obtain v s4 where v: "parse_value n s3 = Some (v, s4)"
    by (cases "parse_value n s3") auto
  with assms(1) have l4: "length s4 < length s3" unfolding shrinks_def by blast
  from assms(2) sk q k sk2 c v obtain d s5 where sk3: "skip_ws s4 = d # s5"
    by (cases "skip_ws s4") auto
  then have l5: "length s5 < length s4" by (rule skip_ws_ConsD)
  show ?thesis
  proof (cases "d = CHR '',''")
    case True
    with assms(2) sk q k sk2 c v sk3 obtain ws where "parse_members n s5 = Some (ws, r)"
      by (auto dest: cons_fst_SomeD)
    with assms(1) have "length r < length s5" unfolding shrinks_def by blast
    with l1 l2 l3 l4 l5 show ?thesis by simp
  next
    case False
    with assms(2) sk q k sk2 c v sk3 have "r = s5" by (auto split: if_splits)
    with l1 l2 l3 l4 l5 show ?thesis by simp
  qed
qed

lemma shrinks: "shrinks n"
proof (induction n)
  case 0
  show ?case by (simp add: shrinks_def)
next
  case (Suc n)
  show ?case
    unfolding shrinks_def
    using shrinks_value_Suc [OF Suc] shrinks_elems_Suc [OF Suc] shrinks_members_Suc [OF Suc]
    by blast
qed

lemma parse_value_shrinks: "parse_value n s = Some (v, r) \<Longrightarrow> length r < length s"
  using shrinks [of n] unfolding shrinks_def by blast

lemma steady_valueD:
  assumes "steady n" and "2 * length s + 1 \<le> n" and "2 * length s + 1 \<le> m"
  shows "parse_value n s = parse_value m s"
  by (rule assms(1) [unfolded steady_def, THEN conjunct1, rule_format, OF assms(2,3)])

lemma steady_elemsD:
  assumes "steady n" and "2 * length s + 2 \<le> n" and "2 * length s + 2 \<le> m"
  shows "parse_elems n s = parse_elems m s"
  by (rule assms(1) [unfolded steady_def, THEN conjunct2, THEN conjunct1, rule_format,
        OF assms(2,3)])

lemma steady_membersD:
  assumes "steady n" and "2 * length s + 2 \<le> n" and "2 * length s + 2 \<le> m"
  shows "parse_members n s = parse_members m s"
  by (rule assms(1) [unfolded steady_def, THEN conjunct2, THEN conjunct2, rule_format,
        OF assms(2,3)])

lemma steady_value_Suc:
  assumes "steady n" and "2 * length s + 1 \<le> Suc n" and "2 * length s + 1 \<le> Suc m"
  shows "parse_value (Suc n) s = parse_value (Suc m) s"
proof (cases "skip_ws s")
  case Nil
  then show ?thesis by (simp only: parse_value.simps list.case)
next
  case (Cons c cs)
  then have lcs: "length cs < length s" by (rule skip_ws_ConsD)
  show ?thesis
  proof (cases "skip_ws cs")
    case Nil
    with Cons show ?thesis by (simp only: parse_value.simps list.case)
  next
    case inner: (Cons d ds)
    have l: "length (d # ds) < length s"
      using length_skip_ws [of cs] lcs inner by simp
    with assms(2,3) have b: "2 * length (d # ds) + 2 \<le> n" "2 * length (d # ds) + 2 \<le> m"
      by simp_all
    have e: "parse_elems n (d # ds) = parse_elems m (d # ds)"
      "parse_members n (d # ds) = parse_members m (d # ds)"
      by (rule steady_elemsD [OF assms(1) b], rule steady_membersD [OF assms(1) b])
    show ?thesis
      by (simp only: parse_value.simps Cons inner list.case e)
  qed
qed

lemma steady_elems_Suc:
  assumes "steady n" and "2 * length s + 2 \<le> Suc n" and "2 * length s + 2 \<le> Suc m"
  shows "parse_elems (Suc n) s = parse_elems (Suc m) s"
proof -
  from assms(2,3) have "2 * length s + 1 \<le> n" "2 * length s + 1 \<le> m" by simp_all
  then have v: "parse_value n s = parse_value m s"
    by (rule steady_valueD [OF assms(1)])
  show ?thesis
  proof (cases "parse_value m s")
    case None
    with v show ?thesis by (simp only: parse_elems.simps option.case)
  next
    case (Some p)
    obtain x r where p: "p = (x, r)" by (cases p)
    from Some p v have vn: "parse_value n s = Some (x, r)" and vm: "parse_value m s = Some (x, r)"
      by simp_all
    from vn have l1: "length r < length s" by (rule parse_value_shrinks)
    show ?thesis
    proof (cases "skip_ws r")
      case Nil
      show ?thesis by (simp only: parse_elems.simps vn vm option.case prod.case Nil list.case)
    next
      case (Cons c cs)
      then have "length cs < length r" by (rule skip_ws_ConsD)
      with l1 assms(2,3) have "2 * length cs + 2 \<le> n" "2 * length cs + 2 \<le> m" by simp_all
      then have e: "parse_elems n cs = parse_elems m cs"
        by (rule steady_elemsD [OF assms(1)])
      show ?thesis
        by (simp only: parse_elems.simps vn vm option.case prod.case Cons list.case e)
    qed
  qed
qed

lemma steady_members_Suc:
  assumes "steady n" and "2 * length s + 2 \<le> Suc n" and "2 * length s + 2 \<le> Suc m"
  shows "parse_members (Suc n) s = parse_members (Suc m) s"
proof (cases "skip_ws s")
  case Nil
  then show ?thesis by (simp only: parse_members.simps list.case)
next
  case (Cons q s1)
  then have l1: "length s1 < length s" by (rule skip_ws_ConsD)
  show ?thesis
  proof (cases "parse_chars s1")
    case None
    show ?thesis by (simp only: parse_members.simps Cons list.case None option.case)
  next
    case (Some p)
    obtain k s2 where p: "p = (k, s2)" by (cases p)
    from Some p have k: "parse_chars s1 = Some (k, s2)" by simp
    from k have l2: "length s2 < length s1" by (rule parse_chars_length)
    show ?thesis
    proof (cases "skip_ws s2")
      case Nil
      show ?thesis
        by (simp only: parse_members.simps Cons list.case k option.case prod.case Nil)
    next
      case inner: (Cons c s3)
      then have l3: "length s3 < length s2" by (rule skip_ws_ConsD)
      with l1 l2 assms(2,3) have "2 * length s3 + 1 \<le> n" "2 * length s3 + 1 \<le> m" by simp_all
      then have v: "parse_value n s3 = parse_value m s3"
        by (rule steady_valueD [OF assms(1)])
      show ?thesis
      proof (cases "parse_value m s3")
        case None
        with v have vn: "parse_value n s3 = None" by simp
        show ?thesis
          by (simp only: parse_members.simps Cons list.case k option.case prod.case inner vn None)
      next
        case val: (Some pv)
        obtain x s4 where pv: "pv = (x, s4)" by (cases pv)
        from val pv v have vn: "parse_value n s3 = Some (x, s4)"
          and vm: "parse_value m s3 = Some (x, s4)" by simp_all
        from vn have l4: "length s4 < length s3" by (rule parse_value_shrinks)
        show ?thesis
        proof (cases "skip_ws s4")
          case Nil
          show ?thesis
            by (simp only: parse_members.simps Cons list.case k option.case prod.case inner
                vn vm Nil)
        next
          case last: (Cons d s5)
          then have "length s5 < length s4" by (rule skip_ws_ConsD)
          with l1 l2 l3 l4 assms(2,3) have "2 * length s5 + 2 \<le> n" "2 * length s5 + 2 \<le> m"
            by simp_all
          then have e: "parse_members n s5 = parse_members m s5"
            by (rule steady_membersD [OF assms(1)])
          show ?thesis
            by (simp only: parse_members.simps Cons list.case k option.case prod.case inner
                vn vm last e)
        qed
      qed
    qed
  qed
qed

lemma steady: "steady n"
proof (induction n)
  case 0
  show ?case by (simp add: steady_def)
next
  case (Suc n)
  show ?case
    unfolding steady_def
  proof (intro conjI allI impI)
    fix s :: string and m
    assume a: "2 * length s + 1 \<le> Suc n" "2 * length s + 1 \<le> m"
    from a(2) obtain m' where m: "m = Suc m'" by (cases m) auto
    from a(2) have "2 * length s + 1 \<le> Suc m'" by (simp only: m)
    from steady_value_Suc [OF Suc a(1) this]
    show "parse_value (Suc n) s = parse_value m s" by (simp only: m)
  next
    fix s :: string and m
    assume a: "2 * length s + 2 \<le> Suc n" "2 * length s + 2 \<le> m"
    from a(2) obtain m' where m: "m = Suc m'" by (cases m) auto
    from a(2) have "2 * length s + 2 \<le> Suc m'" by (simp only: m)
    from steady_elems_Suc [OF Suc a(1) this]
    show "parse_elems (Suc n) s = parse_elems m s" by (simp only: m)
  next
    fix s :: string and m
    assume a: "2 * length s + 2 \<le> Suc n" "2 * length s + 2 \<le> m"
    from a(2) obtain m' where m: "m = Suc m'" by (cases m) auto
    from a(2) have "2 * length s + 2 \<le> Suc m'" by (simp only: m)
    from steady_members_Suc [OF Suc a(1) this]
    show "parse_members (Suc n) s = parse_members m s" by (simp only: m)
  qed
qed

lemma JSON_parse_fuel:
  assumes "2 * length s + 2 \<le> n"
  shows "JSON_parse s =
     (case parse_value n s of
        None \<Rightarrow> None
      | Some (v, r) \<Rightarrow> if skip_ws r = [] then Some v else None)"
proof -
  have "parse_value (2 * length s + 2) s = parse_value n s"
    by (rule steady_valueD [OF steady]) (use assms in simp_all)
  then show ?thesis by (simp only: JSON_parse_def)
qed

section \<open>Objects and the steps of \<open>send\<close>\<close>

lemma map_of_obj_set: "map_of (obj_set k v ps) k' = (if k' = k then Some v else map_of ps k')"
  by (induction ps) auto

lemma keys_obj_set: "fst ` set (obj_set k v ps) = insert k (fst ` set ps)"
  by (induction ps) auto

lemma distinct_obj_set: "distinct (map fst ps) \<Longrightarrow> distinct (map fst (obj_set k v ps))"
proof (induction ps)
  case Nil
  show ?case by simp
next
  case (Cons p ps)
  then show ?case
    by (cases "fst p = k") (simp_all add: keys_obj_set)
qed

lemma snd_send:
  "snd (send dec rid w endpoint request) =
     snd (fetch w endpoint
       \<lparr>init_method = ''POST'', init_mode = ''cors'', init_cache = ''no-cache'',
        init_headers = [(DWN_MESSAGE_HEADER, header_value (encodeMessage
          (createJsonRpcRequest (JStr rid) (JStr ''dwn.processMessage'')
            (JObj (obj_set ''target'' (req_target request)
                    (obj_set ''author'' (req_author request)
                      (own_props (req_message request))))))))],
        init_body = req_data request\<rparr>)"
  by (simp add: send_def Let_def split: prod.splits sum.splits option.splits)

lemma fetched_fetch: "fetched (snd (fetch w endpoint init)) = fetched w @ [(endpoint, init)]"
  by (simp add: fetch_def split: list.splits)

lemma truthy_Some_iff: "truthy x = Some h \<longleftrightarrow> x = Some h \<and> h \<noteq> []"
  by (auto simp: truthy_def split: option.splits)

lemma truthy_None_iff: "truthy x = None \<longleftrightarrow> x \<in> {None, Some []}"
  by (auto simp: truthy_def split: option.splits)

lemma fst_send_ok:
  assumes "pending w = Inr response # rest" and "response_ok response"
  shows "fst (send dec rid w endpoint request) =
     (case truthy (headers_get (resp_headers response) WEB5_RESPONSE_HEADER) of
        Some h \<Rightarrow> err_bind (dec h) (\<lambda>decoded. header_reply decoded (response_body response))
      | None \<Rightarrow>
          (case truthy (headers_get (resp_headers response) DWN_RESPONSE_HEADER) of
             Some h \<Rightarrow>
               err_bind (decodeMessage h) (\<lambda>responseJson.
               err_bind (js_get responseJson ''result'') (\<lambda>result.
               err_bind (js_get result ''reply'') (\<lambda>reply.
                 header_reply reply (response_body response))))
           | None \<Rightarrow>
               err_bind (response_json response) (\<lambda>responseJson.
               err_bind (js_get responseJson ''result'') (\<lambda>result.
                 js_get result ''reply''))))"
  using assms by (simp add: send_def fetch_def Let_def split: option.splits)

lemma js_get_defined:
  "v \<noteq> JUndefined \<Longrightarrow> v \<noteq> JNull \<Longrightarrow> \<exists>x. js_get v k = Inr x"
  by (cases v) (auto split: option.splits)

lemma header_reply_defined:
  assumes "js_get decoded ''entries'' = Inr entries" and "js_get decoded ''message'' = Inr message"
    and "js_get decoded ''record'' = Inr record" and "js_get decoded ''status'' = Inr status"
  shows "header_reply decoded body =
     Inr (JObj [(''entries'', if entries = JUndefined then JNull else entries),
                (''message'', message),
                (''record'', JObj (obj_set ''data'' body (own_props record))),
                (''status'', status)])"
  using assms by (simp add: header_reply_def err_bind_def)

section \<open>Properties of the envelope codec\<close>

text \<open>
  C7. However \<open>createJsonRpcErrorResponse\<close> is called, the \<open>error\<close> member of its result
  is an object; when the \<open>data\<close> argument is left out (it is \<open>undefined\<close>) that object
  has no \<open>data\<close> key at all, and when a \<open>data\<close> argument other than \<open>undefined\<close> is
  given (also \<open>null\<close>) the \<open>data\<close> key is there with exactly that value.
\<close>

theorem createJsonRpcErrorResponse_data_key:
  "\<exists>err. js_get (createJsonRpcErrorResponse ident code message data) ''error'' = Inr (JObj err)
     \<and> (data = JUndefined \<longrightarrow> ''data'' \<notin> set (map fst err))
     \<and> (data \<noteq> JUndefined \<longrightarrow> map_of err ''data'' = Some data)"
  by (cases "data = JUndefined") (simp_all add: createJsonRpcErrorResponse_def Let_def)

theorem createJsonRpcErrorResponse_data_key_witness:
  "(\<exists>err. js_get (createJsonRpcErrorResponse (JNum 1) (JNum (-32600)) (JStr ''Invalid'') JUndefined)
             ''error'' = Inr (JObj err) \<and> ''data'' \<notin> set (map fst err))
   \<and> (\<exists>err. js_get (createJsonRpcErrorResponse (JNum 1) (JNum (-32600)) (JStr ''Invalid'') JNull)
             ''error'' = Inr (JObj err) \<and> map_of err ''data'' = Some JNull)"
  using createJsonRpcErrorResponse_data_key [of "JNum 1" "JNum (-32600)" "JStr ''Invalid''" JUndefined]
        createJsonRpcErrorResponse_data_key [of "JNum 1" "JNum (-32600)" "JStr ''Invalid''" JNull]
  by simp



section \<open>Properties of \<open>send\<close>\<close>

text \<open>
  C5. Whatever the request, \<open>send\<close> makes one call of \<open>fetch\<close>, and the text of its
  \<open>dwn-request\<close> header is the JSON text of the request envelope: the object with
  \<open>jsonrpc\<close> \<open>2.0\<close>, the request id, the method \<open>dwn.processMessage\<close>, and
  parameters in which \<open>author\<close> and \<open>target\<close> are the request's author and target (also
  when the message has such keys itself), every other key has the value it has in the
  message, there is no further key, and no key is repeated.
\<close>

theorem send_request_envelope:
  "\<exists>params text.
     fetched (snd (send dec rid w endpoint request)) =
       fetched w @
       [(endpoint,
         \<lparr>init_method = ''POST'', init_mode = ''cors'', init_cache = ''no-cache'',
          init_headers = [(''dwn-request'', text)],
          init_body = req_data request\<rparr>)]
     \<and> JSON_stringify
           (JObj [(''jsonrpc'', JStr ''2.0''), (''id'', JStr rid),
                  (''method'', JStr ''dwn.processMessage''), (''params'', JObj params)])
         = Some text
     \<and> map_of params ''author'' = Some (req_author request)
     \<and> map_of params ''target'' = Some (req_target request)
     \<and> (\<forall>k. k \<noteq> ''author'' \<longrightarrow> k \<noteq> ''target'' \<longrightarrow>
            map_of params k = map_of (own_props (req_message request)) k)
     \<and> set (map fst params) =
         set (map fst (own_props (req_message request))) \<union> {''author'', ''target''}
     \<and> (distinct (map fst (own_props (req_message request))) \<longrightarrow> distinct (map fst params))"
proof -
  let ?params = "obj_set ''target'' (req_target request)
                   (obj_set ''author'' (req_author request) (own_props (req_message request)))"
  let ?envelope = "JObj [(''jsonrpc'', JStr ''2.0''), (''id'', JStr rid),
                  (''method'', JStr ''dwn.processMessage''), (''params'', JObj ?params)]"
  have env: "createJsonRpcRequest (JStr rid) (JStr ''dwn.processMessage'') (JObj ?params) = ?envelope"
    by (simp only: createJsonRpcRequest_def)
  have enc: "header_value (encodeMessage ?envelope) = stringify ?envelope"
    by (simp add: header_value_def encodeMessage_def JSON_stringify_def)
  have "fetched (snd (send dec rid w endpoint request)) =
       fetched w @
       [(endpoint,
         \<lparr>init_method = ''POST'', init_mode = ''cors'', init_cache = ''no-cache'',
          init_headers = [(''dwn-request'', stringify ?envelope)],
          init_body = req_data request\<rparr>)]"
    by (simp only: snd_send fetched_fetch DWN_MESSAGE_HEADER_def env enc)
  moreover have "JSON_stringify ?envelope = Some (stringify ?envelope)"
    by (simp add: JSON_stringify_def)
  moreover have "map_of ?params ''author'' = Some (req_author request)"
    by (simp add: map_of_obj_set)
  moreover have "map_of ?params ''target'' = Some (req_target request)"
    by (simp add: map_of_obj_set)
  moreover have "\<forall>k. k \<noteq> ''author'' \<longrightarrow> k \<noteq> ''target'' \<longrightarrow>
            map_of ?params k = map_of (own_props (req_message request)) k"
    by (simp add: map_of_obj_set)
  moreover have "set (map fst ?params) =
         set (map fst (own_props (req_message request))) \<union> {''author'', ''target''}"
    by (simp add: keys_obj_set insert_commute)
  moreover have "distinct (map fst (own_props (req_message request))) \<longrightarrow>
      distinct (map fst ?params)"
    by (intro impI distinct_obj_set)
  ultimately show ?thesis
    by (intro exI [of _ ?params] exI [of _ "stringify ?envelope"] conjI)
qed

theorem send_request_envelope_witness:
  \<open>distinct (map fst (own_props (req_message example_request)))
   \<and> (\<exists>params text.
     fetched (snd (send base64UrlToObject ''id-1'' \<lparr>pending = [], fetched = []\<rparr> ''http://dwn''
                     example_request)) =
       [(''http://dwn'',
         \<lparr>init_method = ''POST'', init_mode = ''cors'', init_cache = ''no-cache'',
          init_headers = [(''dwn-request'', text)],
          init_body = JUndefined\<rparr>)]
     \<and> JSON_stringify
           (JObj [(''jsonrpc'', JStr ''2.0''), (''id'', JStr ''id-1''),
                  (''method'', JStr ''dwn.processMessage''), (''params'', JObj params)])
         = Some text
     \<and> map_of params ''author'' = Some (JStr ''did:alice'')
     \<and> map_of params ''target'' = Some (JStr ''did:bob'')
     \<and> ''recordId'' \<noteq> ''author'' \<and> ''recordId'' \<noteq> ''target''
     \<and> map_of params ''recordId'' = Some (JStr ''r1'')
     \<and> distinct (map fst params))
   \<and> fetched (snd (send base64UrlToObject ''id-1'' \<lparr>pending = [], fetched = []\<rparr> ''http://dwn''
                     example_request)) =
       [(''http://dwn'',
         \<lparr>init_method = ''POST'', init_mode = ''cors'', init_cache = ''no-cache'',
          init_headers = [(''dwn-request'',
            ''{"jsonrpc":"2.0","id":"id-1","method":"dwn.processMessage","params":{"author":"did:alice","recordId":"r1","target":"did:bob"}}'')],
          init_body = JUndefined\<rparr>)]\<close>
proof -
  have d: "distinct (map fst (own_props (req_message example_request)))"
    by (simp add: example_request_def)
  have ex: "\<exists>params text.
     fetched (snd (send base64UrlToObject ''id-1'' \<lparr>pending = [], fetched = []\<rparr> ''http://dwn''
                     example_request)) =
       [(''http://dwn'',
         \<lparr>init_method = ''POST'', init_mode = ''cors'', init_cache = ''no-cache'',
          init_headers = [(''dwn-request'', text)],
          init_body = JUndefined\<rparr>)]
     \<and> JSON_stringify
           (JObj [(''jsonrpc'', JStr ''2.0''), (''id'', JStr ''id-1''),
                  (''method'', JStr ''dwn.processMessage''), (''params'', JObj params)])
         = Some text
     \<and> map_of params ''author'' = Some (JStr ''did:alice'')
     \<and> map_of params ''target'' = Some (JStr ''did:bob'')
     \<and> ''recordId'' \<noteq> ''author'' \<and> ''recordId'' \<noteq> ''target''
     \<and> map_of params ''recordId'' = Some (JStr ''r1'')
     \<and> distinct (map fst params)"
    using send_request_envelope [of base64UrlToObject "''id-1''" "\<lparr>pending = [], fetched = []\<rparr>"
        "''http://dwn''" example_request] d
    apply (elim exE conjE)
    subgoal for params hdr
      apply (rule exI [of _ params])
      apply (rule exI [of _ hdr])
      apply (drule spec [of _ "''recordId''"])
      apply (simp add: example_request_def)
      done
    done
  have run: \<open>fetched (snd (send base64UrlToObject ''id-1'' \<lparr>pending = [], fetched = []\<rparr> ''http://dwn''
                     example_request)) =
       [(''http://dwn'',
         \<lparr>init_method = ''POST'', init_mode = ''cors'', init_cache = ''no-cache'',
          init_headers = [(''dwn-request'',
            ''{"jsonrpc":"2.0","id":"id-1","method":"dwn.processMessage","params":{"author":"did:alice","recordId":"r1","target":"did:bob"}}'')],
          init_body = JUndefined\<rparr>)]\<close>
    by code_simp
  from d ex run show ?thesis by (intro conjI)
qed

text \<open>
  C6. When the answer to the call of \<open>fetch\<close> has a status outside 200 to 299, \<open>send\<close>
  fails with the error \<open>Fetch failed with status\<close> and the status, whatever the headers
  and the body of the response are and whatever the decoders would do with them; it has
  taken one answer from the network and made one call, so nothing is tried again.
\<close>

theorem send_non_2xx_fails:
  assumes "pending w = Inr response # rest"
    and "\<not> (200 \<le> resp_status response \<and> resp_status response \<le> 299)"
  shows "\<exists>init.
     send dec rid w endpoint request =
       (Inl (Error (''Fetch failed with status '' @ show_nat (resp_status response))),
        w\<lparr>pending := rest, fetched := fetched w @ [(endpoint, init)]\<rparr>)"
  using assms by (simp add: send_def fetch_def response_ok_def Let_def) (rule exI, rule refl)

lemma show_nat_500: "show_nat 500 = ''500''"
  by code_simp

theorem send_non_2xx_fails_witness:
  "pending \<lparr>pending = [Inr failed_response, Inr body_response], fetched = []\<rparr>
     = Inr failed_response # [Inr body_response]
   \<and> \<not> (200 \<le> resp_status failed_response \<and> resp_status failed_response \<le> 299)
   \<and> (\<exists>init.
        send base64UrlToObject ''id-1''
          \<lparr>pending = [Inr failed_response, Inr body_response], fetched = []\<rparr>
          ''http://dwn'' example_request
        = (Inl (Error ''Fetch failed with status 500''),
           \<lparr>pending = [Inr body_response], fetched = [(''http://dwn'', init)]\<rparr>))"
  using send_non_2xx_fails [of
      "\<lparr>pending = [Inr failed_response, Inr body_response], fetched = []\<rparr>"
      failed_response "[Inr body_response]" base64UrlToObject "''id-1''" "''http://dwn''"
      example_request]
  by (simp add: failed_response_def show_nat_500)

text \<open>
  C1, as the code has it. The answer has a status in 200 to 299. A header counts when
  \<open>headers.get\<close> gives a text that is not empty. When the \<open>WEB5-RESPONSE\<close> header
  counts, the reply is made from its decoding by \<open>base64UrlToObject\<close>; otherwise, when
  the \<open>dwn-response\<close> header counts, the reply is made from \<open>result.reply\<close> of its
  decoding by \<open>decodeMessage\<close>; otherwise the reply is \<open>result.reply\<close> of the body read
  as JSON, as it is. In a reply made from a header whose \<open>record\<close> is an object,
  that object has \<open>data\<close> set to the body stream and every other key unchanged.
\<close>

theorem send_demultiplex:
  assumes "pending w = Inr response # rest"
    and "200 \<le> resp_status response \<and> resp_status response \<le> 299"
  shows
    "(\<forall>h. headers_get (resp_headers response) WEB5_RESPONSE_HEADER = Some h \<and> h \<noteq> [] \<longrightarrow>
        fst (send dec rid w endpoint request) =
          err_bind (dec h) (\<lambda>decoded. header_reply decoded (response_body response)))
   \<and> (\<forall>h. headers_get (resp_headers response) WEB5_RESPONSE_HEADER \<in> {None, Some []}
          \<and> headers_get (resp_headers response) DWN_RESPONSE_HEADER = Some h \<and> h \<noteq> [] \<longrightarrow>
        fst (send dec rid w endpoint request) =
          err_bind (decodeMessage h) (\<lambda>responseJson.
          err_bind (js_get responseJson ''result'') (\<lambda>result.
          err_bind (js_get result ''reply'') (\<lambda>reply.
            header_reply reply (response_body response)))))
   \<and> (headers_get (resp_headers response) WEB5_RESPONSE_HEADER \<in> {None, Some []}
        \<and> headers_get (resp_headers response) DWN_RESPONSE_HEADER \<in> {None, Some []} \<longrightarrow>
        fst (send dec rid w endpoint request) =
          err_bind (response_json response) (\<lambda>responseJson.
          err_bind (js_get responseJson ''result'') (\<lambda>result.
            js_get result ''reply'')))
   \<and> (\<forall>ps rec entries message status.
        map_of ps ''record'' = Some (JObj rec)
        \<and> js_get (JObj ps) ''entries'' = Inr entries
        \<and> js_get (JObj ps) ''message'' = Inr message
        \<and> js_get (JObj ps) ''status'' = Inr status \<longrightarrow>
        (\<exists>rec'. header_reply (JObj ps) (response_body response) =
             Inr (JObj [(''entries'', if entries = JUndefined then JNull else entries),
                        (''message'', message), (''record'', JObj rec'), (''status'', status)])
           \<and> map_of rec' ''data'' = Some (response_body response)
           \<and> (\<forall>k. k \<noteq> ''data'' \<longrightarrow> map_of rec' k = map_of rec k)))"
proof -
  from assms(2) have ok: "response_ok response" by (simp add: response_ok_def)
  note s = fst_send_ok [OF assms(1) ok, of dec rid endpoint request]
  have a: "\<forall>h. headers_get (resp_headers response) WEB5_RESPONSE_HEADER = Some h \<and> h \<noteq> [] \<longrightarrow>
        fst (send dec rid w endpoint request) =
          err_bind (dec h) (\<lambda>decoded. header_reply decoded (response_body response))"
  proof (intro allI impI)
    fix h assume "headers_get (resp_headers response) WEB5_RESPONSE_HEADER = Some h \<and> h \<noteq> []"
    then have "truthy (headers_get (resp_headers response) WEB5_RESPONSE_HEADER) = Some h"
      by (simp add: truthy_Some_iff)
    with s show "fst (send dec rid w endpoint request) =
          err_bind (dec h) (\<lambda>decoded. header_reply decoded (response_body response))"
      by simp
  qed
  have b: "\<forall>h. headers_get (resp_headers response) WEB5_RESPONSE_HEADER \<in> {None, Some []}
          \<and> headers_get (resp_headers response) DWN_RESPONSE_HEADER = Some h \<and> h \<noteq> [] \<longrightarrow>
        fst (send dec rid w endpoint request) =
          err_bind (decodeMessage h) (\<lambda>responseJson.
          err_bind (js_get responseJson ''result'') (\<lambda>result.
          err_bind (js_get result ''reply'') (\<lambda>reply.
            header_reply reply (response_body response))))"
  proof (intro allI impI)
    fix h assume h: "headers_get (resp_headers response) WEB5_RESPONSE_HEADER \<in> {None, Some []}
          \<and> headers_get (resp_headers response) DWN_RESPONSE_HEADER = Some h \<and> h \<noteq> []"
    then have "truthy (headers_get (resp_headers response) WEB5_RESPONSE_HEADER) = None"
      by (simp only: truthy_None_iff)
    moreover from h have "truthy (headers_get (resp_headers response) DWN_RESPONSE_HEADER) = Some h"
      by (simp add: truthy_Some_iff)
    ultimately show "fst (send dec rid w endpoint request) =
          err_bind (decodeMessage h) (\<lambda>responseJson.
          err_bind (js_get responseJson ''result'') (\<lambda>result.
          err_bind (js_get result ''reply'') (\<lambda>reply.
            header_reply reply (response_body response))))"
      using s by simp
  qed
  have c: "headers_get (resp_headers response) WEB5_RESPONSE_HEADER \<in> {None, Some []}
        \<and> headers_get (resp_headers response) DWN_RESPONSE_HEADER \<in> {None, Some []} \<longrightarrow>
        fst (send dec rid w endpoint request) =
          err_bind (response_json response) (\<lambda>responseJson.
          err_bind (js_get responseJson ''result'') (\<lambda>result.
            js_get result ''reply''))"
  proof
    assume h: "headers_get (resp_headers response) WEB5_RESPONSE_HEADER \<in> {None, Some []}
        \<and> headers_get (resp_headers response) DWN_RESPONSE_HEADER \<in> {None, Some []}"
    then have "truthy (headers_get (resp_headers response) WEB5_RESPONSE_HEADER) = None"
      and "truthy (headers_get (resp_headers response) DWN_RESPONSE_HEADER) = None"
      by (simp_all only: truthy_None_iff)
    with s show "fst (send dec rid w endpoint request) =
          err_bind (response_json response) (\<lambda>responseJson.
          err_bind (js_get responseJson ''result'') (\<lambda>result.
            js_get result ''reply''))"
      by simp
  qed
  have d: "\<forall>ps rec entries message status.
        map_of ps ''record'' = Some (JObj rec)
        \<and> js_get (JObj ps) ''entries'' = Inr entries
        \<and> js_get (JObj ps) ''message'' = Inr message
        \<and> js_get (JObj ps) ''status'' = Inr status \<longrightarrow>
        (\<exists>rec'. header_reply (JObj ps) (response_body response) =
             Inr (JObj [(''entries'', if entries = JUndefined then JNull else entries),
                        (''message'', message), (''record'', JObj rec'), (''status'', status)])
           \<and> map_of rec' ''data'' = Some (response_body response)
           \<and> (\<forall>k. k \<noteq> ''data'' \<longrightarrow> map_of rec' k = map_of rec k))"
  proof (intro allI impI)
    fix ps rec entries message status
    assume h: "map_of ps ''record'' = Some (JObj rec)
        \<and> js_get (JObj ps) ''entries'' = Inr entries
        \<and> js_get (JObj ps) ''message'' = Inr message
        \<and> js_get (JObj ps) ''status'' = Inr status"
    then have r: "js_get (JObj ps) ''record'' = Inr (JObj rec)" by simp
    from h have "header_reply (JObj ps) (response_body response) =
        Inr (JObj [(''entries'', if entries = JUndefined then JNull else entries),
                   (''message'', message),
                   (''record'', JObj (obj_set ''data'' (response_body response) (own_props (JObj rec)))),
                   (''status'', status)])"
      by (intro header_reply_defined r) simp_all
    then show "\<exists>rec'. header_reply (JObj ps) (response_body response) =
             Inr (JObj [(''entries'', if entries = JUndefined then JNull else entries),
                        (''message'', message), (''record'', JObj rec'), (''status'', status)])
           \<and> map_of rec' ''data'' = Some (response_body response)
           \<and> (\<forall>k. k \<noteq> ''data'' \<longrightarrow> map_of rec' k = map_of rec k)"
      by (intro exI [of _ "obj_set ''data'' (response_body response) rec"])
         (simp add: map_of_obj_set)
  qed
  from a b c d show ?thesis by (intro conjI)
qed

text \<open>The claim as stated fails for a header that is present with an empty value: the
  response below carries \<open>WEB5-RESPONSE\<close>, its text does not decode, and \<open>send\<close> returns
  the reply found in the body.\<close>

theorem send_demultiplex_counterexample:
  "resp_status empty_legacy_response = 200
   \<and> headers_get (resp_headers empty_legacy_response) WEB5_RESPONSE_HEADER = Some []
   \<and> base64UrlToObject [] = Inl SyntaxError
   \<and> fst (send base64UrlToObject ''id-1'' (network empty_legacy_response) ''http://dwn''
          example_request)
       = Inr (JObj [(''status'', JObj [(''code'', JNum 200)])])"
  by code_simp

theorem send_demultiplex_witness:
  "(pending (network legacy_response) = Inr legacy_response # []
    \<and> (200 \<le> resp_status legacy_response \<and> resp_status legacy_response \<le> 299)
    \<and> headers_get (resp_headers legacy_response) WEB5_RESPONSE_HEADER =
        Some ''eyJyZWNvcmQiOnsicmVjb3JkSWQiOiJyMSIsImRhdGEiOiJ4In0sInN0YXR1cyI6eyJjb2RlIjoyMDB9fQ''
    \<and> fst (send base64UrlToObject ''id-1'' (network legacy_response) ''http://dwn'' example_request)
        = Inr (JObj [(''entries'', JNull), (''message'', JUndefined),
                     (''record'', JObj [(''recordId'', JStr ''r1''), (''data'', JStream ''hello'')]),
                     (''status'', JObj [(''code'', JNum 200)])]))
   \<and> (pending (network current_response) = Inr current_response # []
    \<and> (200 \<le> resp_status current_response \<and> resp_status current_response \<le> 299)
    \<and> headers_get (resp_headers current_response) WEB5_RESPONSE_HEADER \<in> {None, Some []}
    \<and> headers_get (resp_headers current_response) DWN_RESPONSE_HEADER \<noteq> None
    \<and> headers_get (resp_headers current_response) DWN_RESPONSE_HEADER \<noteq> Some []
    \<and> fst (send base64UrlToObject ''id-1'' (network current_response) ''http://dwn'' example_request)
        = Inr (JObj [(''entries'', JNull), (''message'', JUndefined),
                     (''record'', JObj [(''recordId'', JStr ''r1''), (''data'', JStream ''hello'')]),
                     (''status'', JObj [(''code'', JNum 200)])]))
   \<and> (pending (network body_response) = Inr body_response # []
    \<and> (200 \<le> resp_status body_response \<and> resp_status body_response \<le> 299)
    \<and> headers_get (resp_headers body_response) WEB5_RESPONSE_HEADER \<in> {None, Some []}
    \<and> headers_get (resp_headers body_response) DWN_RESPONSE_HEADER \<in> {None, Some []}
    \<and> fst (send base64UrlToObject ''id-1'' (network body_response) ''http://dwn'' example_request)
        = Inr (JObj [(''entries'', JArr []), (''status'', JObj [(''code'', JNum 200)])]))
   \<and> (map_of [(''record'', JObj [(''recordId'', JStr ''r1''), (''data'', JStr ''x'')])] ''record''
        = Some (JObj [(''recordId'', JStr ''r1''), (''data'', JStr ''x'')])
    \<and> (\<exists>rec'. header_reply (JObj [(''record'', JObj [(''recordId'', JStr ''r1''), (''data'', JStr ''x'')])])
                 (response_body legacy_response)
               = Inr (JObj [(''entries'', JNull), (''message'', JUndefined), (''record'', JObj rec'),
                            (''status'', JUndefined)])
          \<and> map_of rec' ''data'' = Some (JStream ''hello'')
          \<and> ''recordId'' \<noteq> ''data'' \<and> map_of rec' ''recordId'' = Some (JStr ''r1'')))"
proof -
  let ?send = "\<lambda>r. fst (send base64UrlToObject ''id-1'' (network r) ''http://dwn'' example_request)"
  have p: "\<And>r. pending (network r) = Inr r # []" by (simp add: network_def)
  have ok: "200 \<le> resp_status legacy_response \<and> resp_status legacy_response \<le> 299"
    "200 \<le> resp_status current_response \<and> resp_status current_response \<le> 299"
    "200 \<le> resp_status body_response \<and> resp_status body_response \<le> 299"
    by (simp_all add: legacy_response_def current_response_def body_response_def)
  have h1: "headers_get (resp_headers legacy_response) WEB5_RESPONSE_HEADER =
        Some ''eyJyZWNvcmQiOnsicmVjb3JkSWQiOiJyMSIsImRhdGEiOiJ4In0sInN0YXR1cyI6eyJjb2RlIjoyMDB9fQ''"
    by code_simp
  have h2: "headers_get (resp_headers current_response) WEB5_RESPONSE_HEADER = None"
    \<open>headers_get (resp_headers current_response) DWN_RESPONSE_HEADER =
      Some ''{"result":{"reply":{"record":{"recordId":"r1","data":"x"},"status":{"code":200}}}}''\<close>
    by code_simp+
  have h3: "headers_get (resp_headers body_response) WEB5_RESPONSE_HEADER = None"
    "headers_get (resp_headers body_response) DWN_RESPONSE_HEADER = None"
    by code_simp+
  have a: "?send legacy_response =
      err_bind (base64UrlToObject
          ''eyJyZWNvcmQiOnsicmVjb3JkSWQiOiJyMSIsImRhdGEiOiJ4In0sInN0YXR1cyI6eyJjb2RlIjoyMDB9fQ'')
        (\<lambda>decoded. header_reply decoded (response_body legacy_response))"
    using send_demultiplex [OF p ok(1), of base64UrlToObject "''id-1''" "''http://dwn''" example_request]
    by (simp add: h1)
  have a': "err_bind (base64UrlToObject
          ''eyJyZWNvcmQiOnsicmVjb3JkSWQiOiJyMSIsImRhdGEiOiJ4In0sInN0YXR1cyI6eyJjb2RlIjoyMDB9fQ'')
        (\<lambda>decoded. header_reply decoded (response_body legacy_response))
      = Inr (JObj [(''entries'', JNull), (''message'', JUndefined),
                     (''record'', JObj [(''recordId'', JStr ''r1''), (''data'', JStream ''hello'')]),
                     (''status'', JObj [(''code'', JNum 200)])])"
    by code_simp
  have b: \<open>?send current_response =
      err_bind (decodeMessage
          ''{"result":{"reply":{"record":{"recordId":"r1","data":"x"},"status":{"code":200}}}}'')
        (\<lambda>responseJson. err_bind (js_get responseJson ''result'') (\<lambda>result.
           err_bind (js_get result ''reply'') (\<lambda>reply.
             header_reply reply (response_body current_response))))\<close>
    using send_demultiplex [OF p ok(2), of base64UrlToObject "''id-1''" "''http://dwn''" example_request]
    by (simp add: h2)
  have b': \<open>err_bind (decodeMessage
          ''{"result":{"reply":{"record":{"recordId":"r1","data":"x"},"status":{"code":200}}}}'')
        (\<lambda>responseJson. err_bind (js_get responseJson ''result'') (\<lambda>result.
           err_bind (js_get result ''reply'') (\<lambda>reply.
             header_reply reply (response_body current_response))))
      = Inr (JObj [(''entries'', JNull), (''message'', JUndefined),
                     (''record'', JObj [(''recordId'', JStr ''r1''), (''data'', JStream ''hello'')]),
                     (''status'', JObj [(''code'', JNum 200)])])\<close>
    by code_simp
  have c: "?send body_response =
      err_bind (response_json body_response) (\<lambda>responseJson.
        err_bind (js_get responseJson ''result'') (\<lambda>result. js_get result ''reply''))"
    using send_demultiplex [OF p ok(3), of base64UrlToObject "''id-1''" "''http://dwn''" example_request]
    by (simp add: h3)
  have c': "err_bind (response_json body_response) (\<lambda>responseJson.
        err_bind (js_get responseJson ''result'') (\<lambda>result. js_get result ''reply''))
      = Inr (JObj [(''entries'', JArr []), (''status'', JObj [(''code'', JNum 200)])])"
    by code_simp
  have body: "response_body legacy_response = JStream ''hello''"
    by (simp add: response_body_def legacy_response_def)
  have d: "\<exists>rec'. header_reply (JObj [(''record'', JObj [(''recordId'', JStr ''r1''), (''data'', JStr ''x'')])])
                 (response_body legacy_response)
               = Inr (JObj [(''entries'', JNull), (''message'', JUndefined), (''record'', JObj rec'),
                            (''status'', JUndefined)])
          \<and> map_of rec' ''data'' = Some (JStream ''hello'')
          \<and> ''recordId'' \<noteq> ''data'' \<and> map_of rec' ''recordId'' = Some (JStr ''r1'')"
    using send_demultiplex [OF p ok(1), of base64UrlToObject "''id-1''" "''http://dwn''" example_request,
        THEN conjunct2, THEN conjunct2, THEN conjunct2, rule_format,
        of "[(''record'', JObj [(''recordId'', JStr ''r1''), (''data'', JStr ''x'')])]"
           "[(''recordId'', JStr ''r1''), (''data'', JStr ''x'')]" JUndefined JUndefined JUndefined]
    apply (simp add: body)
    apply (elim exE conjE)
    subgoal for rec'
      apply (rule exI [of _ rec'])
      apply (drule spec [of _ "''recordId''"])
      apply simp
      done
    done
  show ?thesis
    using p ok h1 h2 h3 a a' b b' c c' d by simp
qed

lemma header_reply_record:
  assumes "decoded \<noteq> JUndefined" and "decoded \<noteq> JNull"
  shows "\<exists>reply rec. header_reply decoded body = Inr reply
           \<and> js_get reply ''record'' = Inr (JObj rec)
           \<and> map_of rec ''data'' = Some body
           \<and> (js_get decoded ''record'' = Inr JUndefined \<longrightarrow> rec = [(''data'', body)])"
proof -
  from assms obtain entries message rcd status where
    g: "js_get decoded ''entries'' = Inr entries" "js_get decoded ''message'' = Inr message"
       "js_get decoded ''record'' = Inr rcd" "js_get decoded ''status'' = Inr status"
    using js_get_defined [of decoded] by metis
  let ?rec = "obj_set ''data'' body (own_props rcd)"
  let ?reply = "JObj [(''entries'', if entries = JUndefined then JNull else entries),
                (''message'', message), (''record'', JObj ?rec), (''status'', status)]"
  have "header_reply decoded body = Inr ?reply"
    using g by (rule header_reply_defined)
  moreover have "js_get ?reply ''record'' = Inr (JObj ?rec)" by simp
  moreover have "map_of ?rec ''data'' = Some body" by (simp add: map_of_obj_set)
  moreover have "js_get decoded ''record'' = Inr JUndefined \<longrightarrow> ?rec = [(''data'', body)]"
    using g(3) by auto
  ultimately show ?thesis by blast
qed

text \<open>
  C10, as the code has it. The answer has a status in 200 to 299, and a header that counts
  (its text is not empty; \<open>WEB5-RESPONSE\<close> first, else \<open>dwn-response\<close>) decodes to a
  value other than \<open>undefined\<close> and \<open>null\<close>. Then \<open>send\<close> returns a reply whose
  \<open>record\<close> is an object with \<open>data\<close> set to the body stream; when the decoded value
  has no \<open>record\<close>, the reply's record is exactly the object with that one key.
\<close>

theorem send_header_record:
  assumes "pending w = Inr response # rest"
    and "200 \<le> resp_status response \<and> resp_status response \<le> 299"
    and "(headers_get (resp_headers response) WEB5_RESPONSE_HEADER = Some h \<and> h \<noteq> []
          \<and> dec h = Inr decoded)
       \<or> (headers_get (resp_headers response) WEB5_RESPONSE_HEADER \<in> {None, Some []}
          \<and> headers_get (resp_headers response) DWN_RESPONSE_HEADER = Some h \<and> h \<noteq> []
          \<and> decodeMessage h = Inr responseJson
          \<and> js_get responseJson ''result'' = Inr result
          \<and> js_get result ''reply'' = Inr decoded)"
    and "decoded \<noteq> JUndefined" and "decoded \<noteq> JNull"
  shows "\<exists>reply rec.
           fst (send dec rid w endpoint request) = Inr reply
           \<and> js_get reply ''record'' = Inr (JObj rec)
           \<and> map_of rec ''data'' = Some (response_body response)
           \<and> (js_get decoded ''record'' = Inr JUndefined \<longrightarrow>
                rec = [(''data'', response_body response)])"
proof -
  from assms(2) have ok: "response_ok response" by (simp add: response_ok_def)
  note s = fst_send_ok [OF assms(1) ok, of dec rid endpoint request]
  have "fst (send dec rid w endpoint request) = header_reply decoded (response_body response)"
    using assms(3)
  proof
    assume a: "headers_get (resp_headers response) WEB5_RESPONSE_HEADER = Some h \<and> h \<noteq> []
          \<and> dec h = Inr decoded"
    then have "truthy (headers_get (resp_headers response) WEB5_RESPONSE_HEADER) = Some h"
      by (simp add: truthy_Some_iff)
    with s a show ?thesis by (simp add: err_bind_def)
  next
    assume b: "headers_get (resp_headers response) WEB5_RESPONSE_HEADER \<in> {None, Some []}
          \<and> headers_get (resp_headers response) DWN_RESPONSE_HEADER = Some h \<and> h \<noteq> []
          \<and> decodeMessage h = Inr responseJson
          \<and> js_get responseJson ''result'' = Inr result
          \<and> js_get result ''reply'' = Inr decoded"
    then have "truthy (headers_get (resp_headers response) WEB5_RESPONSE_HEADER) = None"
      by (simp only: truthy_None_iff)
    moreover from b have "truthy (headers_get (resp_headers response) DWN_RESPONSE_HEADER) = Some h"
      by (simp add: truthy_Some_iff)
    ultimately show ?thesis using s b by (simp add: err_bind_def)
  qed
  with header_reply_record [OF assms(4,5), of "response_body response"] show ?thesis by simp
qed

text \<open>The claim as stated fails for a header that is present with an empty value: the
  response below carries \<open>dwn-response\<close>, and the reply that \<open>send\<close> returns, found in
  the body, has no \<open>record\<close>.\<close>

theorem send_header_record_counterexample:
  "resp_status empty_current_response = 200
   \<and> headers_get (resp_headers empty_current_response) DWN_RESPONSE_HEADER = Some []
   \<and> fst (send base64UrlToObject ''id-1'' (network empty_current_response) ''http://dwn''
          example_request)
       = Inr (JObj [(''status'', JObj [(''code'', JNum 202), (''detail'', JStr ''Accepted'')])])
   \<and> js_get (JObj [(''status'', JObj [(''code'', JNum 202), (''detail'', JStr ''Accepted'')])])
        ''record'' = Inr JUndefined"
  by code_simp

theorem send_header_record_witness:
  "(pending (network bare_legacy_response) = Inr bare_legacy_response # []
    \<and> (200 \<le> resp_status bare_legacy_response \<and> resp_status bare_legacy_response \<le> 299)
    \<and> headers_get (resp_headers bare_legacy_response) WEB5_RESPONSE_HEADER
         = Some ''eyJzdGF0dXMiOnsiY29kZSI6MjAwfX0''
    \<and> base64UrlToObject ''eyJzdGF0dXMiOnsiY29kZSI6MjAwfX0''
         = Inr (JObj [(''status'', JObj [(''code'', JNum 200)])])
    \<and> js_get (JObj [(''status'', JObj [(''code'', JNum 200)])]) ''record'' = Inr JUndefined
    \<and> (\<exists>reply.
          fst (send base64UrlToObject ''id-1'' (network bare_legacy_response) ''http://dwn''
                 example_request) = Inr reply
          \<and> js_get reply ''record'' = Inr (JObj [(''data'', JStream ''hello'')])))
   \<and> (pending (network bare_current_response) = Inr bare_current_response # []
    \<and> (200 \<le> resp_status bare_current_response \<and> resp_status bare_current_response \<le> 299)
    \<and> headers_get (resp_headers bare_current_response) WEB5_RESPONSE_HEADER = None
    \<and> (\<exists>reply.
          fst (send base64UrlToObject ''id-1'' (network bare_current_response) ''http://dwn''
                 example_request) = Inr reply
          \<and> js_get reply ''record'' = Inr (JObj [(''data'', JStream ''hello'')])))"
proof -
  have p: "\<And>r. pending (network r) = Inr r # []" by (simp add: network_def)
  have ok: "200 \<le> resp_status bare_legacy_response \<and> resp_status bare_legacy_response \<le> 299"
    "200 \<le> resp_status bare_current_response \<and> resp_status bare_current_response \<le> 299"
    by (simp_all add: bare_legacy_response_def bare_current_response_def)
  have body: "response_body bare_legacy_response = JStream ''hello''"
    "response_body bare_current_response = JStream ''hello''"
    by (simp_all add: response_body_def bare_legacy_response_def bare_current_response_def)
  have h1: "headers_get (resp_headers bare_legacy_response) WEB5_RESPONSE_HEADER
         = Some ''eyJzdGF0dXMiOnsiY29kZSI6MjAwfX0''"
    by code_simp
  have d1: "base64UrlToObject ''eyJzdGF0dXMiOnsiY29kZSI6MjAwfX0''
         = Inr (JObj [(''status'', JObj [(''code'', JNum 200)])])"
    by code_simp
  have u1: "js_get (JObj [(''status'', JObj [(''code'', JNum 200)])]) ''record'' = Inr JUndefined"
    by simp
  have h2: "headers_get (resp_headers bare_current_response) WEB5_RESPONSE_HEADER = None"
    \<open>headers_get (resp_headers bare_current_response) DWN_RESPONSE_HEADER
       = Some ''{"result":{"reply":{"status":{"code":202}}}}''\<close>
    by code_simp+
  have d2: \<open>decodeMessage ''{"result":{"reply":{"status":{"code":202}}}}''
       = Inr (JObj [(''result'', JObj [(''reply'', JObj [(''status'', JObj [(''code'', JNum 202)])])])])\<close>
    by code_simp
  have g2: "js_get (JObj [(''result'', JObj [(''reply'', JObj [(''status'', JObj [(''code'', JNum 202)])])])])
        ''result'' = Inr (JObj [(''reply'', JObj [(''status'', JObj [(''code'', JNum 202)])])])"
    "js_get (JObj [(''reply'', JObj [(''status'', JObj [(''code'', JNum 202)])])]) ''reply''
       = Inr (JObj [(''status'', JObj [(''code'', JNum 202)])])"
    "js_get (JObj [(''status'', JObj [(''code'', JNum 202)])]) ''record'' = Inr JUndefined"
    by simp_all
  have a: "\<exists>reply.
          fst (send base64UrlToObject ''id-1'' (network bare_legacy_response) ''http://dwn''
                 example_request) = Inr reply
          \<and> js_get reply ''record'' = Inr (JObj [(''data'', JStream ''hello'')])"
    using send_header_record [OF p ok(1), of "''eyJzdGF0dXMiOnsiY29kZSI6MjAwfX0''"
        base64UrlToObject "JObj [(''status'', JObj [(''code'', JNum 200)])]" _ _
        "''id-1''" "''http://dwn''" example_request] h1 d1 u1 body
    by auto
  have b: "\<exists>reply.
          fst (send base64UrlToObject ''id-1'' (network bare_current_response) ''http://dwn''
                 example_request) = Inr reply
          \<and> js_get reply ''record'' = Inr (JObj [(''data'', JStream ''hello'')])"
    using send_header_record [OF p ok(2), of _ base64UrlToObject
        "JObj [(''status'', JObj [(''code'', JNum 202)])]"
        "JObj [(''result'', JObj [(''reply'', JObj [(''status'', JObj [(''code'', JNum 202)])])])]"
        "JObj [(''reply'', JObj [(''status'', JObj [(''code'', JNum 202)])])]"
        "''id-1''" "''http://dwn''" example_request] h2 d2 g2 body
    by auto
  show ?thesis
    using p ok h1 d1 u1 h2 a b by simp
qed

section \<open>Properties of the data accessor\<close>

lemma held_resolve: "held (acc_source (resolve a)) = held (acc_source a)"
  by (simp add: resolve_def split: data_source.splits payload.splits)

lemma acc_state_resolve: "acc_state (resolve a) = acc_state a"
  by (simp add: resolve_def split: data_source.splits)

lemma resolve_present: "acc_source a \<noteq> Absent (held (acc_source a)) \<Longrightarrow> resolve a = a"
  by (cases "acc_source a") (simp_all add: resolve_def)

lemma resolve_idem: "resolve (resolve a) = resolve a"
  by (simp add: resolve_def split: data_source.splits payload.splits)

lemma buffered_resolve: "buffered b a \<Longrightarrow> buffered b (resolve a)"
  by (simp add: buffered_def held_resolve acc_state_resolve)



lemma snd_run_ops_Cons:
  "snd (run_ops (x # xs) a) = snd (run_ops xs (snd (run_op x a)))"
  by (simp split: prod.splits)


lemma acc_fetches_resolve: "acc_fetches (resolve a) \<le> Suc (acc_fetches a)"
  by (simp add: resolve_def split: data_source.splits)


lemma run_op_consumed:
  assumes "consumed a"
  shows "run_op x a = (Inl StreamExhaustedError, a)"
proof -
  from assms obtain t where s: "acc_source a = DataStream t" and st: "acc_state a \<noteq> Unread"
    by (auto simp: consumed_def)
  from s have r: "resolve a = a" by (simp add: resolve_def)
  show ?thesis
    using s st
    by (cases x; cases "acc_state a") (simp_all add: data_json_def data_bytes_def Let_def r)
qed

lemma run_ops_consumed: "consumed a \<Longrightarrow> snd (run_ops ops a) = a"
proof (induction ops)
  case Nil
  show ?case by simp
next
  case (Cons x ops)
  have "snd (run_ops (x # ops) a) = snd (run_ops ops (snd (run_op x a)))"
    by (rule snd_run_ops_Cons)
  also have "\<dots> = snd (run_ops ops a)"
    by (simp only: run_op_consumed [OF Cons.prems] snd_conv)
  also have "\<dots> = a" by (rule Cons.IH [OF Cons.prems])
  finally show ?case .
qed

text \<open>
  C2. A Record made with a data stream that holds JSON text: the first read as JSON
  returns the decoded value and leaves the stream consumed whole, by one consumption; after
  that, whatever reads of the accessor are made, a read as JSON fails with
  \<open>StreamExhaustedError\<close>, so no sequence of the accessor's operations makes the stream
  readable again.
\<close>

theorem stream_json_once:
  assumes "JSON_parse t = Some v"
  shows "\<exists>a. data_json (new_accessor (DataStream t)) = (Inr v, a)
           \<and> acc_source a = DataStream [] \<and> acc_reads a = 1
           \<and> (\<forall>ops. fst (data_json (snd (run_ops ops a))) = Inl StreamExhaustedError)"
proof -
  define a where "a = (new_accessor (DataStream t))\<lparr>acc_source := DataStream [],
      acc_state := Cached v, acc_decodes := 1, acc_reads := 1\<rparr>"
  have first: "data_json (new_accessor (DataStream t)) = (Inr v, a)"
    using assms by (simp add: a_def data_json_def resolve_def new_accessor_def Let_def)
  have c: "consumed a" by (simp add: a_def consumed_def)
  have src: "acc_source a = DataStream []" "acc_reads a = 1" by (simp_all add: a_def)
  have "\<forall>ops. fst (data_json (snd (run_ops ops a))) = Inl StreamExhaustedError"
  proof
    fix ops
    from run_op_consumed [OF c, of ReadJson]
    have "data_json a = (Inl StreamExhaustedError, a)" by simp
    then show "fst (data_json (snd (run_ops ops a))) = Inl StreamExhaustedError"
      by (simp only: run_ops_consumed [OF c] fst_conv)
  qed
  with first src show ?thesis by blast
qed

theorem stream_json_once_witness:
  \<open>JSON_parse ''{"a":1}'' = Some (JObj [(''a'', JNum 1)])
   \<and> (\<exists>a. data_json (new_accessor (DataStream ''{"a":1}'')) = (Inr (JObj [(''a'', JNum 1)]), a)
         \<and> acc_source a = DataStream [] \<and> acc_reads a = 1
         \<and> fst (data_json (snd (run_ops [] a))) = Inl StreamExhaustedError
         \<and> fst (data_json (snd (run_ops [ReadJson, ReadBytes] a))) = Inl StreamExhaustedError)\<close>
proof -
  have p: \<open>JSON_parse ''{"a":1}'' = Some (JObj [(''a'', JNum 1)])\<close> by code_simp
  from stream_json_once [OF p] p show ?thesis by blast
qed

text \<open>
  C3. A Record made with encoded bytes that hold JSON text: three reads as JSON in a row
  return the same decoded value; the first read decodes once, and the second and the third
  decode nothing and leave the accessor as it was (the cost of a read is counted in
  decodings; time is not part of the model).
\<close>

theorem encoded_data_json_memoized:
  assumes "JSON_parse b = Some v"
  shows "\<exists>a1 a2 a3.
           data_json (new_accessor (EncodedBytes b)) = (Inr v, a1)
           \<and> data_json a1 = (Inr v, a2)
           \<and> data_json a2 = (Inr v, a3)
           \<and> acc_decodes a1 = 1 \<and> acc_decodes a2 = 1 \<and> acc_decodes a3 = 1
           \<and> a2 = a1 \<and> a3 = a1"
proof -
  define a where "a = (new_accessor (EncodedBytes b))\<lparr>acc_state := Cached v, acc_decodes := 1\<rparr>"
  have first: "data_json (new_accessor (EncodedBytes b)) = (Inr v, a)"
    using assms by (simp add: a_def data_json_def resolve_def new_accessor_def Let_def)
  have again: "data_json a = (Inr v, a)"
    by (simp add: a_def data_json_def resolve_def new_accessor_def Let_def)
  have "acc_decodes a = 1" by (simp add: a_def)
  with first again show ?thesis by blast
qed

theorem encoded_data_json_memoized_witness:
  \<open>JSON_parse ''{"a":1}'' = Some (JObj [(''a'', JNum 1)])
   \<and> (\<exists>a1 a2 a3.
           data_json (new_accessor (EncodedBytes ''{"a":1}'')) = (Inr (JObj [(''a'', JNum 1)]), a1)
           \<and> data_json a1 = (Inr (JObj [(''a'', JNum 1)]), a2)
           \<and> data_json a2 = (Inr (JObj [(''a'', JNum 1)]), a3)
           \<and> acc_decodes a1 = 1 \<and> acc_decodes a2 = 1 \<and> acc_decodes a3 = 1
           \<and> a2 = a1 \<and> a3 = a1)\<close>
proof -
  have p: \<open>JSON_parse ''{"a":1}'' = Some (JObj [(''a'', JNum 1)])\<close> by code_simp
  from encoded_data_json_memoized [OF p] p show ?thesis by (intro conjI)
qed



end
